theory Spec2Isabelle
  imports Complex_Main
begin

section \<open>Exceptions and floating-point values\<close>

text \<open>
  The exception classes of \<^verbatim>\<open>parameterize_spectra.py\<close> (all subclasses of
  \<^verbatim>\<open>SpecParamError\<close>) together with the built-in Python exceptions that the modelled
  code paths can raise.  A raising call is a value \<open>Inl e\<close>.
\<close>

datatype exn =
    FitError | NoDataError | DataError | InconsistentDataError
  | IncompatibleSettingsError | NoModelError
  | ValueError | RuntimeError | TypeError | IndexError | AttributeError | OverflowError

text \<open>
  A float64 is either a finite value, one of the two infinities, or NaN.  Finite values are
  idealised as reals: rounding, overflow of finite arithmetic and the sign of zero are not
  modelled.  The special values follow IEEE-754 as numpy implements it (numpy returns
  inf/NaN with a warning where plain Python would raise).
\<close>

datatype npfloat = Fin real | PosInf | NegInf | NaN

fun isnan :: "npfloat \<Rightarrow> bool" where
  "isnan NaN = True"
| "isnan _ = False"

fun isinf :: "npfloat \<Rightarrow> bool" where
  "isinf PosInf = True"
| "isinf NegInf = True"
| "isinf _ = False"

fun isfinite :: "npfloat \<Rightarrow> bool" where
  "isfinite (Fin _) = True"
| "isfinite _ = False"

fun fneg :: "npfloat \<Rightarrow> npfloat" where
  "fneg (Fin a) = Fin (- a)"
| "fneg PosInf = NegInf"
| "fneg NegInf = PosInf"
| "fneg NaN = NaN"

fun fadd :: "npfloat \<Rightarrow> npfloat \<Rightarrow> npfloat" where
  "fadd (Fin a) (Fin b) = Fin (a + b)"
| "fadd NaN _ = NaN"
| "fadd _ NaN = NaN"
| "fadd PosInf NegInf = NaN"
| "fadd NegInf PosInf = NaN"
| "fadd PosInf _ = PosInf"
| "fadd _ PosInf = PosInf"
| "fadd NegInf _ = NegInf"
| "fadd _ NegInf = NegInf"

definition fsub :: "npfloat \<Rightarrow> npfloat \<Rightarrow> npfloat" where
  "fsub a b = fadd a (fneg b)"

definition signed_inf :: "real \<Rightarrow> npfloat" where
  "signed_inf a = (if a > 0 then PosInf else if a < 0 then NegInf else NaN)"

fun fmul :: "npfloat \<Rightarrow> npfloat \<Rightarrow> npfloat" where
  "fmul (Fin a) (Fin b) = Fin (a * b)"
| "fmul NaN _ = NaN"
| "fmul _ NaN = NaN"
| "fmul (Fin a) PosInf = signed_inf a"
| "fmul (Fin a) NegInf = signed_inf (- a)"
| "fmul PosInf (Fin b) = signed_inf b"
| "fmul NegInf (Fin b) = signed_inf (- b)"
| "fmul PosInf PosInf = PosInf"
| "fmul NegInf NegInf = PosInf"
| "fmul PosInf NegInf = NegInf"
| "fmul NegInf PosInf = NegInf"

fun fdiv :: "npfloat \<Rightarrow> npfloat \<Rightarrow> npfloat" where
  "fdiv (Fin a) (Fin b) = (if b \<noteq> 0 then Fin (a / b) else signed_inf a)"
| "fdiv NaN _ = NaN"
| "fdiv _ NaN = NaN"
| "fdiv (Fin a) _ = Fin 0"
| "fdiv PosInf (Fin b) = (if b \<ge> 0 then PosInf else NegInf)"
| "fdiv NegInf (Fin b) = (if b \<ge> 0 then NegInf else PosInf)"
| "fdiv PosInf PosInf = NaN"
| "fdiv PosInf NegInf = NaN"
| "fdiv NegInf PosInf = NaN"
| "fdiv NegInf NegInf = NaN"

fun fabs :: "npfloat \<Rightarrow> npfloat" where
  "fabs (Fin a) = Fin \<bar>a\<bar>"
| "fabs NaN = NaN"
| "fabs _ = PosInf"

text \<open>Comparisons: every comparison with NaN is false.\<close>

fun flt :: "npfloat \<Rightarrow> npfloat \<Rightarrow> bool" where
  "flt (Fin a) (Fin b) = (a < b)"
| "flt NaN _ = False"
| "flt _ NaN = False"
| "flt NegInf NegInf = False"
| "flt NegInf _ = True"
| "flt PosInf _ = False"
| "flt _ PosInf = True"
| "flt _ NegInf = False"

definition fle :: "npfloat \<Rightarrow> npfloat \<Rightarrow> bool" where
  "fle a b = (flt a b \<or> (a = b \<and> \<not> isnan a))"

fun fln :: "npfloat \<Rightarrow> npfloat" where
  "fln (Fin a) = (if a > 0 then Fin (ln a) else if a = 0 then NegInf else NaN)"
| "fln PosInf = PosInf"
| "fln _ = NaN"

fun flog10 :: "npfloat \<Rightarrow> npfloat" where
  "flog10 (Fin a) = (if a > 0 then Fin (log 10 a) else if a = 0 then NegInf else NaN)"
| "flog10 PosInf = PosInf"
| "flog10 _ = NaN"

text \<open>\<open>np_base_power b y\<close> is \<^verbatim>\<open>b ** y\<close> for a base \<open>b > 1\<close> (here \<open>e\<close> or \<open>10\<close>).\<close>

fun np_base_power :: "real \<Rightarrow> npfloat \<Rightarrow> npfloat" where
  "np_base_power b (Fin a) = Fin (b powr a)"
| "np_base_power b PosInf = PosInf"
| "np_base_power b NegInf = Fin 0"
| "np_base_power b NaN = NaN"

definition fexp :: "npfloat \<Rightarrow> npfloat" where
  "fexp y = np_base_power (exp 1) y"

text \<open>\<open>fpow x e\<close> is \<^verbatim>\<open>x ** e\<close> for a float base and a finite exponent.\<close>

fun fpow :: "npfloat \<Rightarrow> real \<Rightarrow> npfloat" where
  "fpow (Fin x) e =
     (if x > 0 then Fin (x powr e)
      else if x = 0 then (if e > 0 then Fin 0 else if e = 0 then Fin 1 else PosInf)
      else if e \<in> \<int> then Fin (x powi \<lfloor>e\<rfloor>) else NaN)"
| "fpow PosInf e = (if e > 0 then PosInf else if e = 0 then Fin 1 else Fin 0)"
| "fpow NegInf e =
     (if e = 0 then Fin 1 else if e < 0 then Fin 0
      else if e \<in> \<int> \<and> odd \<lfloor>e\<rfloor> then NegInf else PosInf)"
| "fpow NaN e = (if e = 0 then Fin 1 else NaN)"

subsection \<open>One-dimensional arrays\<close>

text \<open>
  A one-dimensional float array is a list.  An element-wise binary operation on two arrays
  follows numpy's broadcasting: equal lengths, or one operand of length one; any other
  combination raises \<^verbatim>\<open>ValueError\<close>.
\<close>

definition np_binop ::
  "(npfloat \<Rightarrow> npfloat \<Rightarrow> npfloat) \<Rightarrow> npfloat list \<Rightarrow> npfloat list \<Rightarrow> exn + npfloat list" where
  "np_binop f xs ys =
     (if length xs = length ys then Inr (map2 f xs ys)
      else if length ys = 1 then Inr (map (\<lambda>x. f x (hd ys)) xs)
      else if length xs = 1 then Inr (map (\<lambda>y. f (hd xs) y) ys)
      else Inl ValueError)"

text \<open>Boolean-mask selection \<^verbatim>\<open>xs[mask]\<close> for a mask of the same length.\<close>

definition mask_select :: "'a list \<Rightarrow> bool list \<Rightarrow> 'a list" where
  "mask_select xs msk = map fst (filter snd (zip xs msk))"

text \<open>
  \<^verbatim>\<open>np.linspace(start, stop, num)\<close>: \<open>num\<close> samples, the last one set to \<open>stop\<close>;
  a negative \<open>num\<close> raises \<^verbatim>\<open>ValueError\<close>.
\<close>

definition np_linspace :: "npfloat \<Rightarrow> npfloat \<Rightarrow> int \<Rightarrow> exn + npfloat list" where
  "np_linspace start stop num =
     (if num < 0 then Inl ValueError
      else
        let dv = num - 1;
            delta = fsub stop start;
            y = (if dv > 0
                 then map (\<lambda>i. fadd (fmul (Fin (real i)) (fdiv delta (Fin (real_of_int dv)))) start)
                        [0..<nat num]
                 else map (\<lambda>i. fadd (fmul (Fin (real i)) delta) start) [0..<nat num])
        in Inr (if num > 1 then butlast y @ [stop] else y))"

text \<open>\<^verbatim>\<open>np.logspace(start, stop, num, base)\<close> is \<^verbatim>\<open>base ** linspace(start, stop, num)\<close>.\<close>

definition np_logspace :: "npfloat \<Rightarrow> npfloat \<Rightarrow> int \<Rightarrow> real \<Rightarrow> exn + npfloat list" where
  "np_logspace start stop num base =
     (case np_linspace start stop num of
        Inl e \<Rightarrow> Inl e
      | Inr y \<Rightarrow> Inr (map (np_base_power base) y))"

section \<open>Band specification: \<^verbatim>\<open>str2band\<close>\<close>

type_synonym band = "npfloat \<times> npfloat"

text \<open>
  The \<^verbatim>\<open>bands\<close> argument is a list of pairs, a scheme name, or a value of any other
  type.
\<close>

datatype bands_arg = BandList "band list" | BandName string | BandOther

text \<open>\<^verbatim>\<open>[(c[i], c[i+1]) for i in range(len(c)-1)]\<close>\<close>

definition consecutive_bins :: "npfloat list \<Rightarrow> band list" where
  "consecutive_bins common_freqs = zip common_freqs (tl common_freqs)"

definition standard_bands :: "band list" where
  "standard_bands =
     [(Fin (3/10), Fin (3/2)), (Fin (3/2), Fin 4), (Fin 4, Fin 8), (Fin 8, Fin (25/2)),
      (Fin (25/2), Fin 30), (Fin 30, Fin 70), (Fin 70, Fin 150), (Fin 150, Fin 250)]"

definition standard_nohigh_bands :: "band list" where
  "standard_nohigh_bands =
     [(Fin (3/10), Fin (3/2)), (Fin (3/2), Fin 4), (Fin 4, Fin 8), (Fin 8, Fin (25/2)),
      (Fin (25/2), Fin 30), (Fin 30, Fin 70), (Fin 70, Fin 150)]"

definition buzsaki_bands :: "band list" where
  "buzsaki_bands =
     [(Fin (1/5), Fin (1/2)), (Fin (1/2), Fin (1 / (7/10))), (Fin (3/2), Fin 4), (Fin 4, Fin 10),
      (Fin 10, Fin 30), (Fin 30, Fin 80), (Fin 80, Fin 200), (Fin 200, Fin 600)]"

text \<open>The named or generated intervals, before any subdivision.\<close>

definition common_freq_bins :: "string \<Rightarrow> int \<Rightarrow> real \<Rightarrow> real \<Rightarrow> exn + band list" where
  "common_freq_bins name max_n_peaks l_freq h_freq =
     (if name = ''log'' then
        (let max_n_peaks' = (if max_n_peaks > 62 then 62 else max_n_peaks)
         in case np_logspace (fln (Fin l_freq)) (fln (Fin h_freq)) (max_n_peaks' + 1) (exp 1) of
              Inl e \<Rightarrow> Inl e
            | Inr common_freqs \<Rightarrow> Inr (consecutive_bins common_freqs))
      else if name = ''linear'' then
        (case np_linspace (Fin l_freq) (Fin h_freq) (max_n_peaks + 1) of
           Inl e \<Rightarrow> Inl e
         | Inr common_freqs \<Rightarrow> Inr (consecutive_bins common_freqs))
      else if name = ''log10'' then
        (case np_logspace (flog10 (Fin l_freq)) (flog10 (Fin h_freq)) (max_n_peaks + 1) 10 of
           Inl e \<Rightarrow> Inl e
         | Inr common_freqs \<Rightarrow> Inr (consecutive_bins common_freqs))
      else if name = ''standard'' then Inr standard_bands
      else if name = ''standard_nohigh'' then Inr standard_nohigh_bands
      else if name = ''buzsaki'' then Inr buzsaki_bands
      else Inl ValueError)"

text \<open>Splitting one band into \<open>n_division\<close> log-spaced sub-bands.\<close>

definition divide_band :: "int \<Rightarrow> band \<Rightarrow> band list" where
  "divide_band n_division bnd =
     (let band_spacing = fdiv (fln (fdiv (snd bnd) (fst bnd))) (Fin (real_of_int n_division))
      in map (\<lambda>division.
                (fmul (fst bnd) (fexp (fmul band_spacing (Fin (real division)))),
                 fmul (fst bnd) (fexp (fmul band_spacing (Fin (real (division + 1)))))))
           [0..<nat n_division])"

definition str2band ::
  "bands_arg \<Rightarrow> int \<Rightarrow> real \<Rightarrow> real \<Rightarrow> int \<Rightarrow> exn + (band list \<times> string)" where
  "str2band bands max_n_peaks l_freq h_freq n_division =
     (case bands of
        BandList bs \<Rightarrow> Inr (bs, ''custom'')
      | BandName name \<Rightarrow>
          (case common_freq_bins name max_n_peaks l_freq h_freq of
             Inl e \<Rightarrow> Inl e
           | Inr bins \<Rightarrow>
               Inr (if n_division > 1 then concat (map (divide_band n_division) bins) else bins,
                    name))
      | BandOther \<Rightarrow> Inl ValueError)"

section \<open>The fit orchestrator \<^verbatim>\<open>ParamSpectra\<close>: state\<close>

text \<open>
  The instance attributes, one field per attribute; \<open>self_x\<close> stands for
  \<^verbatim>\<open>self.x\<close>, \<^verbatim>\<open>self._x\<close> or \<^verbatim>\<open>self.x_\<close>.  An attribute holding
  \<^verbatim>\<open>None\<close> is \<open>None\<close>; \<open>self_max_harmonic\<close> is \<open>None\<close> while the attribute does not
  exist yet (it is first assigned by \<^verbatim>\<open>_prepare_data\<close>).
\<close>

record ParamSpectra =
  self_bands :: "band list"
  self_bandname :: string
  self_l_freq :: real
  self_h_freq :: real
  self_aperiodic_mode :: string
  self_verbose :: int
  self_log_freqs :: bool
  self_n_division :: int
  self_linenoise :: "real option"
  self_prominence :: real
  self_max_n_peaks :: int
  self_iterate_peaks :: bool
  self_ap_percentile_thresh :: real
  self_ap_guess :: "npfloat option \<times> real \<times> npfloat option"
  self_ap_bounds :: "(npfloat \<times> npfloat \<times> npfloat) \<times> (npfloat \<times> npfloat \<times> npfloat)"
  self_bw_std_edge :: real
  self_gauss_overlap_thresh :: real
  self_cf_bound :: real
  self_error_metric :: string
  self_maxfev :: nat
  self_tol :: real
  self_debug :: bool
  self_check_freqs :: bool
  self_check_data :: bool
  self_freqs :: "real list option"
  self_freq_range :: "(real \<times> real) option"
  self_freq_res :: "real option"
  self_power_spectrum :: "npfloat list option"
  self_aperiodic_params :: "npfloat list"
  self_gaussian_params :: "real list"
  self_peak_params :: "(npfloat \<times> npfloat \<times> npfloat) list"
  self_r_squared :: npfloat
  self_error :: npfloat
  self_modeled_spectrum :: "npfloat list option"
  self_spectrum_flat :: "npfloat list option"
  self_spectrum_peak_rm :: "npfloat list option"
  self_ap_fit :: "npfloat list option"
  self_peak_fit :: "npfloat list option"
  self_noise_pks :: "real list option"
  self_noise_ranges :: "(real \<times> real) list option"
  self_max_harmonic :: "int option"

definition reset_data_results :: "bool \<Rightarrow> bool \<Rightarrow> bool \<Rightarrow> ParamSpectra \<Rightarrow> ParamSpectra" where
  "reset_data_results clear_freqs clear_spectrum clear_results s =
     (let s1 = (if clear_freqs
                then s\<lparr>self_freqs := None, self_freq_range := None, self_freq_res := None\<rparr>
                else s);
          s2 = (if clear_spectrum then s1\<lparr>self_power_spectrum := None\<rparr> else s1)
      in if clear_results
         then s2\<lparr>self_aperiodic_params :=
                    replicate (if self_aperiodic_mode s = ''fixed'' then 2 else 3) NaN,
                  self_gaussian_params := [],
                  self_peak_params := [],
                  self_r_squared := NaN,
                  self_error := NaN,
                  self_modeled_spectrum := None,
                  self_spectrum_flat := None,
                  self_spectrum_peak_rm := None,
                  self_ap_fit := None,
                  self_peak_fit := None,
                  self_noise_pks := None,
                  self_noise_ranges := None\<rparr>
         else s2)"

text \<open>
  The constructor.  It resolves the band scheme, drops the bands outside the cutoffs, sets
  the private settings and clears data and results.
\<close>

definition ParamSpectra_init ::
  "bands_arg \<Rightarrow> int \<Rightarrow> bool \<Rightarrow> int \<Rightarrow> real \<Rightarrow> real \<Rightarrow> real \<Rightarrow> real option \<Rightarrow> string \<Rightarrow> bool \<Rightarrow> int
     \<Rightarrow> exn + ParamSpectra" where
  "ParamSpectra_init bands max_n_peaks log_freqs n_division l_freq h_freq prominence linenoise
       aperiodic_mode iterate_peaks verbose =
     (case str2band bands max_n_peaks l_freq h_freq n_division of
        Inl e \<Rightarrow> Inl e
      | Inr (bs, bandname) \<Rightarrow>
          Inr (reset_data_results True True True
            \<lparr> self_bands = filter (\<lambda>bnd. flt (fst bnd) (Fin h_freq) \<and> flt (Fin l_freq) (snd bnd)) bs,
              self_bandname = bandname,
              self_l_freq = l_freq,
              self_h_freq = h_freq,
              self_aperiodic_mode = aperiodic_mode,
              self_verbose = verbose,
              self_log_freqs = log_freqs,
              self_n_division = n_division,
              self_linenoise = linenoise,
              self_prominence = prominence,
              self_max_n_peaks = max_n_peaks,
              self_iterate_peaks = iterate_peaks,
              self_ap_percentile_thresh = 25 / 1000,
              self_ap_guess = (None, h_freq - l_freq, None),
              self_ap_bounds = ((NegInf, Fin 0, NegInf), (PosInf, PosInf, PosInf)),
              self_bw_std_edge = 1,
              self_gauss_overlap_thresh = 3 / 4,
              self_cf_bound = 3 / 2,
              self_error_metric = ''MAPE'',
              self_maxfev = 5000,
              self_tol = 1 / 100000,
              self_debug = False,
              self_check_freqs = True,
              self_check_data = True,
              self_freqs = None,
              self_freq_range = None,
              self_freq_res = None,
              self_power_spectrum = None,
              self_aperiodic_params = [],
              self_gaussian_params = [],
              self_peak_params = [],
              self_r_squared = NaN,
              self_error = NaN,
              self_modeled_spectrum = None,
              self_spectrum_flat = None,
              self_spectrum_peak_rm = None,
              self_ap_fit = None,
              self_peak_fit = None,
              self_noise_pks = None,
              self_noise_ranges = None,
              self_max_harmonic = None \<rparr>))"

section \<open>Library functions\<close>

text \<open>
  The numerical routines of scipy, numpy and fooof that the module calls but does not
  define are parameters of the model: the nonlinear least-squares solver
  \<^verbatim>\<open>scipy.optimize.curve_fit\<close> (model function, x data, y data, initial guess,
  evaluation budget, lower and upper bounds, tolerance), \<^verbatim>\<open>scipy.signal.find_peaks\<close>
  (data, prominence), \<^verbatim>\<open>scipy.signal.peak_widths\<close> at half height,
  \<^verbatim>\<open>fooof.utils.interpolate_spectrum\<close>, the off-diagonal entry of
  \<^verbatim>\<open>np.corrcoef\<close> and \<^verbatim>\<open>scipy.stats.norm.pdf\<close>.  Every theorem below holds for all
  such routines.  The solver returns finite parameters or raises.
\<close>

type_synonym model_func = "npfloat list option \<Rightarrow> real list \<Rightarrow> exn + npfloat list"

record lib =
  curve_fit :: "model_func \<Rightarrow> npfloat list option \<Rightarrow> npfloat list \<Rightarrow> npfloat list \<Rightarrow> nat
                  \<Rightarrow> npfloat list \<times> npfloat list \<Rightarrow> real option \<Rightarrow> exn + real list"
  find_peaks :: "npfloat list \<Rightarrow> real \<Rightarrow> nat list"
  peak_widths :: "npfloat list \<Rightarrow> nat list \<Rightarrow> exn + real list"
  interpolate_spectrum :: "real list \<Rightarrow> npfloat list \<Rightarrow> real \<times> real \<Rightarrow> exn + real list \<times> npfloat list"
  corrcoef :: "npfloat list \<Rightarrow> npfloat list \<Rightarrow> exn + npfloat"
  norm_pdf :: "npfloat \<Rightarrow> real \<Rightarrow> real \<Rightarrow> npfloat"

subsection \<open>Small numpy and Python primitives\<close>

text \<open>Python indexing of a sequence: negative indices count from the end.\<close>

definition py_index :: "'a list \<Rightarrow> int \<Rightarrow> exn + 'a" where
  "py_index xs i =
     (if 0 \<le> i \<and> i < int (length xs) then Inr (xs ! nat i)
      else if i < 0 \<and> - i \<le> int (length xs) then Inr (xs ! nat (int (length xs) + i))
      else Inl IndexError)"

text \<open>\<^verbatim>\<open>int(x)\<close> truncates towards zero and raises on NaN and the infinities.\<close>

fun py_int :: "npfloat \<Rightarrow> exn + int" where
  "py_int (Fin a) = Inr (if a \<ge> 0 then \<lfloor>a\<rfloor> else \<lceil>a\<rceil>)"
| "py_int NaN = Inl ValueError"
| "py_int _ = Inl OverflowError"

text \<open>Floor division of two finite floats; division by zero yields an infinity or NaN.\<close>

definition np_floor_divide :: "real \<Rightarrow> real \<Rightarrow> npfloat" where
  "np_floor_divide a b = (if b \<noteq> 0 then Fin (of_int \<lfloor>a / b\<rfloor>) else signed_inf a)"

text \<open>\<^verbatim>\<open>np.isclose(a, b, rtol, atol=1e-8)\<close> on finite values.\<close>

definition np_isclose :: "real \<Rightarrow> real \<Rightarrow> real \<Rightarrow> bool" where
  "np_isclose a b rtol = (\<bar>a - b\<bar> \<le> 1 / 100000000 + rtol * \<bar>b\<bar>)"

definition list_max :: "real list \<Rightarrow> real" where
  "list_max xs = fold max xs (hd xs)"

definition list_min :: "real list \<Rightarrow> real" where
  "list_min xs = fold min xs (hd xs)"

text \<open>
  \<^verbatim>\<open>np.max\<close> and \<^verbatim>\<open>np.min\<close> raise \<^verbatim>\<open>ValueError\<close> on an empty array and return NaN
  when a NaN is present.
\<close>

definition fmax2 :: "npfloat \<Rightarrow> npfloat \<Rightarrow> npfloat" where
  "fmax2 a b = (if flt a b then b else a)"

definition fmin2 :: "npfloat \<Rightarrow> npfloat \<Rightarrow> npfloat" where
  "fmin2 a b = (if flt b a then b else a)"

definition np_max :: "npfloat list \<Rightarrow> exn + npfloat" where
  "np_max xs =
     (if xs = [] then Inl ValueError
      else if list_ex isnan xs then Inr NaN
      else Inr (fold fmax2 (tl xs) (hd xs)))"

definition np_min :: "npfloat list \<Rightarrow> exn + npfloat" where
  "np_min xs =
     (if xs = [] then Inl ValueError
      else if list_ex isnan xs then Inr NaN
      else Inr (fold fmin2 (tl xs) (hd xs)))"

text \<open>\<^verbatim>\<open>np.mean\<close>: the mean of an empty array is NaN.\<close>

definition np_mean :: "npfloat list \<Rightarrow> npfloat" where
  "np_mean xs = fdiv (fold (\<lambda>x acc. fadd acc x) xs (Fin 0)) (Fin (real (length xs)))"

text \<open>
  \<^verbatim>\<open>np.argmin\<close>: the first index of a NaN if there is one, else the first index of the
  minimum; \<^verbatim>\<open>ValueError\<close> on an empty array.
\<close>

fun first_index :: "('a \<Rightarrow> bool) \<Rightarrow> 'a list \<Rightarrow> nat" where
  "first_index P [] = 0"
| "first_index P (x # xs) = (if P x then 0 else Suc (first_index P xs))"

definition np_argmin :: "npfloat list \<Rightarrow> exn + nat" where
  "np_argmin xs =
     (if xs = [] then Inl ValueError
      else if list_ex isnan xs then Inr (first_index isnan xs)
      else let m = fold fmin2 (tl xs) (hd xs) in Inr (first_index (\<lambda>x. x = m) xs))"

text \<open>
  \<^verbatim>\<open>np.percentile(a, q)\<close> with the default linear interpolation: \<open>q\<close> is given in percent
  and must lie in \<open>[0, 100]\<close>; the result is the value at the virtual index
  \<open>q / 100 * (n - 1)\<close> of the sorted data.
\<close>

fun insort_f :: "npfloat \<Rightarrow> npfloat list \<Rightarrow> npfloat list" where
  "insort_f x [] = [x]"
| "insort_f x (y # ys) = (if fle x y then x # y # ys else y # insort_f x ys)"

definition sort_f :: "npfloat list \<Rightarrow> npfloat list" where
  "sort_f xs = foldr insort_f xs []"

definition np_lerp :: "npfloat \<Rightarrow> npfloat \<Rightarrow> real \<Rightarrow> npfloat" where
  "np_lerp a b t =
     (if t < 1 / 2 then fadd a (fmul (fsub b a) (Fin t))
      else fsub b (fmul (fsub b a) (Fin (1 - t))))"

definition np_percentile :: "npfloat list \<Rightarrow> real \<Rightarrow> exn + npfloat" where
  "np_percentile a q =
     (if q < 0 \<or> q > 100 then Inl ValueError
      else if a = [] \<or> list_ex isnan a then Inr NaN
      else
        let srt = sort_f a;
            n = length srt;
            virtual_index = q / 100 * real (n - 1);
            lo = nat \<lfloor>virtual_index\<rfloor>;
            hi = min (lo + 1) (n - 1);
            gamma = virtual_index - real lo
        in Inr (np_lerp (srt ! lo) (srt ! hi) gamma))"

section \<open>Spectrum conditioning\<close>

definition trim_spectrum ::
  "real list \<Rightarrow> npfloat list \<Rightarrow> real \<times> real \<Rightarrow> exn + real list \<times> npfloat list" where
  "trim_spectrum fs power_spectra f_range =
     (let f_mask = map (\<lambda>f. f \<ge> fst f_range \<and> f \<le> snd f_range) fs
      in if length power_spectra \<noteq> length fs then Inl IndexError
         else Inr (mask_select fs f_mask, mask_select power_spectra f_mask))"

text \<open>
  \<^verbatim>\<open>detect_powerline_harmonics_peak_widths\<close>: the detected peaks that lie within 5\%
  of one of the given harmonics, with their interpolation ranges.
\<close>

definition detect_powerline_harmonics_peak_widths ::
  "lib \<Rightarrow> real list \<Rightarrow> npfloat list \<Rightarrow> real list \<Rightarrow> real \<Rightarrow> exn + real list \<times> (real \<times> real) list" where
  "detect_powerline_harmonics_peak_widths L frequencies psd harmonics prominence =
     (let peaks = find_peaks L (map flog10 psd) prominence
      in if \<exists>pk \<in> set peaks. pk \<ge> length frequencies then Inl IndexError
         else
           let detected_peaks =
                 filter (\<lambda>pk. \<exists>harmonic \<in> set harmonics.
                                 np_isclose (frequencies ! pk) harmonic (5 / 100)) peaks;
               freq_peaks = map (\<lambda>pk. frequencies ! pk) detected_peaks
           in if detected_peaks = [] then Inr (freq_peaks, [])
              else
                (case peak_widths L psd detected_peaks of
                   Inl e \<Rightarrow> Inl e
                 | Inr widths \<Rightarrow>
                     let len_freqs = int (length frequencies) - 1;
                         trunc = (\<lambda>r::real. if r \<ge> 0 then \<lfloor>r\<rfloor> else \<lceil>r\<rceil>)
                     in Inr (freq_peaks,
                             map (\<lambda>(pk, wd).
                                    (frequencies ! nat (max (trunc (real pk - wd)) 0),
                                     frequencies ! nat (min (trunc (real pk + wd)) len_freqs)))
                               (zip detected_peaks widths))))"

text \<open>
  The harmonic frequencies that \<^verbatim>\<open>_prepare_data\<close> hands to the detector:
  \<^verbatim>\<open>[60*int(ii) for ii in range(1, self._max_harmonic+1)]\<close>.
\<close>

definition prepare_harmonics :: "int \<Rightarrow> real list" where
  "prepare_harmonics max_harmonic = map (\<lambda>ii. 60 * real ii) [1..<nat (max_harmonic + 1)]"

text \<open>
  \<^verbatim>\<open>self._max_harmonic = int(freqs.max()//self.linenoise) if self.linenoise is not None else 0\<close>
\<close>

definition compute_max_harmonic :: "real option \<Rightarrow> real list \<Rightarrow> exn + int" where
  "compute_max_harmonic linenoise fs =
     (case linenoise of
        None \<Rightarrow> Inr 0
      | Some ln0 \<Rightarrow> py_int (np_floor_divide (list_max fs) ln0))"

text \<open>The loop that interpolates each detected noise range away.\<close>

fun interpolate_ranges ::
  "lib \<Rightarrow> real list \<Rightarrow> npfloat list \<Rightarrow> (real \<times> real) list \<Rightarrow> exn + real list \<times> npfloat list" where
  "interpolate_ranges L fs ps [] = Inr (fs, ps)"
| "interpolate_ranges L fs ps (noise_range # rest) =
     (case interpolate_spectrum L fs ps noise_range of
        Inl e \<Rightarrow> Inl e
      | Inr (fs', ps') \<Rightarrow> interpolate_ranges L fs' ps' rest)"

text \<open>
  The first half of \<^verbatim>\<open>_prepare_data\<close>: size check, optional range restriction,
  zero-frequency guard, realised range and resolution.  (The type, dimension and
  complex-value checks are vacuous for typed one-dimensional float arrays.)
\<close>

definition optional_trim ::
  "real list \<Rightarrow> npfloat list \<Rightarrow> (real \<times> real) option \<Rightarrow> exn + real list \<times> npfloat list" where
  "optional_trim fs power_spectrum freq_range =
     (case freq_range of
        None \<Rightarrow> Inr (fs, power_spectrum)
      | Some fr \<Rightarrow> trim_spectrum fs power_spectrum fr)"

definition zero_freq_guard :: "real list \<Rightarrow> npfloat list \<Rightarrow> exn + real list \<times> npfloat list" where
  "zero_freq_guard fs power_spectrum =
     (if fs = [] then Inl IndexError
      else if hd fs = 0
      then (if length fs < 2 then Inl IndexError
            else trim_spectrum fs power_spectrum (fs ! 1, list_max fs))
      else Inr (fs, power_spectrum))"

definition prepare_trim ::
  "real list \<Rightarrow> npfloat list \<Rightarrow> (real \<times> real) option
     \<Rightarrow> exn + real list \<times> npfloat list \<times> (real \<times> real) \<times> real" where
  "prepare_trim fs power_spectrum freq_range =
     (if length fs \<noteq> length power_spectrum then Inl InconsistentDataError
      else
        (case optional_trim fs power_spectrum freq_range of
           Inl e \<Rightarrow> Inl e
         | Inr (fs1, ps1) \<Rightarrow>
             (case zero_freq_guard fs1 ps1 of
                Inl e \<Rightarrow> Inl e
              | Inr (fs2, ps2) \<Rightarrow>
                  (if fs2 = [] then Inl ValueError
                   else if length fs2 < 2 then Inl IndexError
                   else Inr (fs2, ps2, (list_min fs2, list_max fs2), fs2 ! 1 - fs2 ! 0)))))"

text \<open>The powerline-removal step; it assigns the noise attributes of the instance.\<close>

definition prepare_powerline ::
  "lib \<Rightarrow> ParamSpectra \<Rightarrow> real list \<Rightarrow> npfloat list
     \<Rightarrow> ParamSpectra \<times> (exn + real list \<times> npfloat list)" where
  "prepare_powerline L s fs ps =
     (if self_verbose s > 2 \<and> self_linenoise s = None then (s, Inl TypeError)
      else
        case compute_max_harmonic (self_linenoise s) fs of
          Inl e \<Rightarrow> (s, Inl e)
        | Inr mh \<Rightarrow>
            let s1 = s\<lparr>self_max_harmonic := Some mh\<rparr>
            in if mh > 0 then
                 (case detect_powerline_harmonics_peak_widths L fs ps (prepare_harmonics mh)
                         (self_prominence s1) of
                    Inl e \<Rightarrow> (s1, Inl e)
                  | Inr (noise_pks, noise_ranges) \<Rightarrow>
                      (case (if length noise_pks > 0
                             then interpolate_ranges L fs ps noise_ranges
                             else Inr (fs, ps)) of
                         Inl e \<Rightarrow> (s1, Inl e)
                       | Inr (fs', ps') \<Rightarrow>
                           (s1\<lparr>self_noise_pks := Some noise_pks,
                               self_noise_ranges := Some noise_ranges\<rparr>,
                            Inr (fs', ps'))))
               else (s1, Inr (fs, ps)))"

text \<open>The last part of \<^verbatim>\<open>_prepare_data\<close>: log-transform and the two data checks.\<close>

definition prepare_checks ::
  "ParamSpectra \<Rightarrow> real list \<Rightarrow> npfloat list \<Rightarrow> real \<Rightarrow> exn + npfloat list" where
  "prepare_checks s fs ps freq_res =
     (let power_spectrum = map flog10 ps;
          freq_diffs = map (\<lambda>(a, b). b - a) (zip fs (tl fs))
      in if self_check_freqs s \<and> \<not> list_all (\<lambda>d. np_isclose d freq_res (1 / 100000)) freq_diffs
         then Inl DataError
         else if self_check_data s \<and> (list_ex isinf power_spectrum \<or> list_ex isnan power_spectrum)
         then Inl DataError
         else Inr power_spectrum)"

definition prepare_data ::
  "lib \<Rightarrow> ParamSpectra \<Rightarrow> real list \<Rightarrow> npfloat list \<Rightarrow> (real \<times> real) option
     \<Rightarrow> ParamSpectra \<times> (exn + real list \<times> npfloat list \<times> (real \<times> real) \<times> real)" where
  "prepare_data L s fs power_spectrum freq_range =
     (case prepare_trim fs power_spectrum freq_range of
        Inl e \<Rightarrow> (s, Inl e)
      | Inr (fs1, ps1, fr, freq_res) \<Rightarrow>
          (case prepare_powerline L s fs1 ps1 of
             (s1, Inl e) \<Rightarrow> (s1, Inl e)
           | (s1, Inr (fs2, ps2)) \<Rightarrow>
               (case prepare_checks s1 fs2 ps2 freq_res of
                  Inl e \<Rightarrow> (s1, Inl e)
                | Inr ps3 \<Rightarrow> (s1, Inr (fs2, ps3, fr, freq_res)))))"

text \<open>The two indicator properties.\<close>

definition has_data :: "ParamSpectra \<Rightarrow> bool" where
  "has_data s =
     (case self_power_spectrum s of
        None \<Rightarrow> False
      | Some ps \<Rightarrow> list_ex (\<lambda>v. v \<noteq> Fin 0) ps)"

definition has_model :: "ParamSpectra \<Rightarrow> bool" where
  "has_model s = (\<not> list_all isnan (self_aperiodic_params s))"

definition add_data ::
  "lib \<Rightarrow> real list \<Rightarrow> npfloat list \<Rightarrow> (real \<times> real) option \<Rightarrow> bool \<Rightarrow> ParamSpectra
     \<Rightarrow> ParamSpectra \<times> exn option" where
  "add_data L fs power_spectrum freq_range clear_results s =
     (let s0 = reset_data_results (has_data s) (has_data s) (has_model s \<and> clear_results) s
      in case prepare_data L s0 fs power_spectrum freq_range of
           (s1, Inl e) \<Rightarrow> (s1, Some e)
         | (s1, Inr (fs', ps', fr, freq_res)) \<Rightarrow>
             (s1\<lparr>self_freqs := Some fs', self_power_spectrum := Some ps',
                 self_freq_range := Some fr, self_freq_res := Some freq_res\<rparr>, None))"

section \<open>Aperiodic model\<close>

text \<open>
  The two forward functions.  The x values are \<open>None\<close> when the caller passes
  \<^verbatim>\<open>None\<close> (an instance without frequencies); unpacking a parameter tuple of the wrong
  length raises \<^verbatim>\<open>ValueError\<close>.
\<close>

definition expo_function :: model_func where
  "expo_function xs params =
     (case params of
        [offset, knee, ex] \<Rightarrow>
          (case xs of
             None \<Rightarrow> Inl TypeError
           | Some xs' \<Rightarrow>
               let inner_arg = map (\<lambda>x. fadd (Fin knee) (fpow x ex)) xs'
               in (case np_min (filter (\<lambda>v. flt (Fin 0) v) inner_arg) of
                     Inl e \<Rightarrow> Inl e
                   | Inr m \<Rightarrow>
                       Inr (map (\<lambda>v. fsub (Fin offset) (flog10 (if fle v (Fin 0) then m else v)))
                              inner_arg)))
      | _ \<Rightarrow> Inl ValueError)"

definition expo_nk_function :: model_func where
  "expo_nk_function xs params =
     (case params of
        [offset, ex] \<Rightarrow>
          (case xs of
             None \<Rightarrow> Inl TypeError
           | Some xs' \<Rightarrow> Inr (map (\<lambda>x. fsub (Fin offset) (flog10 (fpow x ex))) xs'))
      | _ \<Rightarrow> Inl ValueError)"

definition get_ap_func :: "string \<Rightarrow> exn + model_func" where
  "get_ap_func aperiodic_mode =
     (if aperiodic_mode = ''fixed'' then Inr expo_nk_function
      else if aperiodic_mode = ''knee'' then Inr expo_function
      else Inl ValueError)"

definition infer_ap_func :: "real list \<Rightarrow> exn + string" where
  "infer_ap_func aperiodic_params =
     (if length aperiodic_params = 2 then Inr ''fixed''
      else if length aperiodic_params = 3 then Inr ''knee''
      else Inl InconsistentDataError)"

definition gen_aperiodic :: "npfloat list option \<Rightarrow> real list \<Rightarrow> string option \<Rightarrow> exn + npfloat list" where
  "gen_aperiodic fs aperiodic_params aperiodic_mode =
     (case (if aperiodic_mode = None \<or> aperiodic_mode = Some []
            then infer_ap_func aperiodic_params
            else Inr (the aperiodic_mode)) of
        Inl e \<Rightarrow> Inl e
      | Inr m \<Rightarrow>
          (case get_ap_func m of
             Inl e \<Rightarrow> Inl e
           | Inr ap_func \<Rightarrow> ap_func fs aperiodic_params))"

section \<open>Aperiodic fitter\<close>

definition py_subscript :: "'a list option \<Rightarrow> int \<Rightarrow> exn + 'a" where
  "py_subscript xs i = (case xs of None \<Rightarrow> Inl TypeError | Some xs' \<Rightarrow> py_index xs' i)"

text \<open>Truth value of an optional float: \<^verbatim>\<open>None\<close> and zero are false.\<close>

definition truthy :: "npfloat option \<Rightarrow> bool" where
  "truthy g = (case g of None \<Rightarrow> False | Some v \<Rightarrow> v \<noteq> Fin 0)"

text \<open>
  The initial guesses of \<^verbatim>\<open>_simple_ap_fit\<close>.  The offset guess reads the
  \<^verbatim>\<open>power_spectrum\<close> argument; the exponent guess reads the attributes
  \<^verbatim>\<open>self.power_spectrum\<close> and \<^verbatim>\<open>self.freqs\<close>.
\<close>

definition off_guess :: "ParamSpectra \<Rightarrow> npfloat list \<Rightarrow> exn + npfloat" where
  "off_guess s power_spectrum =
     (if \<not> truthy (fst (self_ap_guess s)) then py_index power_spectrum 1
      else Inr (the (fst (self_ap_guess s))))"

definition kne_guess :: "ParamSpectra \<Rightarrow> npfloat list" where
  "kne_guess s =
     (if self_aperiodic_mode s = ''knee'' then [Fin (fst (snd (self_ap_guess s)))] else [])"

definition exp_guess :: "ParamSpectra \<Rightarrow> exn + npfloat" where
  "exp_guess s =
     (if \<not> truthy (snd (snd (self_ap_guess s))) then
        (case py_subscript (self_power_spectrum s) (- 1) of
           Inl e \<Rightarrow> Inl e
         | Inr p_last \<Rightarrow>
        (case py_subscript (self_power_spectrum s) 0 of
           Inl e \<Rightarrow> Inl e
         | Inr p_first \<Rightarrow>
        (case py_subscript (self_freqs s) (- 1) of
           Inl e \<Rightarrow> Inl e
         | Inr f_last \<Rightarrow>
        (case py_subscript (self_freqs s) 0 of
           Inl e \<Rightarrow> Inl e
         | Inr f_first \<Rightarrow>
             Inr (fabs (fdiv (fsub p_last p_first)
                             (fsub (flog10 (Fin f_last)) (flog10 (Fin f_first)))))))))
      else Inr (the (snd (snd (self_ap_guess s)))))"

text \<open>The bounds handed to the solver; the knee column is dropped in fixed mode.\<close>

definition ap_bounds :: "ParamSpectra \<Rightarrow> npfloat list \<times> npfloat list" where
  "ap_bounds s =
     (case self_ap_bounds s of
        ((lo_off, lo_knee, lo_exp), (hi_off, hi_knee, hi_exp)) \<Rightarrow>
          if self_aperiodic_mode s = ''knee''
          then ([lo_off, lo_knee, lo_exp], [hi_off, hi_knee, hi_exp])
          else ([lo_off, lo_exp], [hi_off, hi_exp]))"

definition simple_ap_guess :: "ParamSpectra \<Rightarrow> npfloat list \<Rightarrow> exn + npfloat list" where
  "simple_ap_guess s power_spectrum =
     (case off_guess s power_spectrum of
        Inl e \<Rightarrow> Inl e
      | Inr og \<Rightarrow>
          (case exp_guess s of
             Inl e \<Rightarrow> Inl e
           | Inr eg \<Rightarrow> Inr ([og] @ kne_guess s @ [eg])))"

text \<open>
  \<^verbatim>\<open>_simple_ap_fit\<close>.  Its handler is \<^verbatim>\<open>except FitError\<close>: a \<^verbatim>\<open>FitError\<close> of
  the solver call is re-raised as \<^verbatim>\<open>FitError\<close>, every other exception passes through
  unchanged.
\<close>

definition simple_ap_fit ::
  "lib \<Rightarrow> ParamSpectra \<Rightarrow> real list option \<Rightarrow> npfloat list \<Rightarrow> exn + real list" where
  "simple_ap_fit L s fs power_spectrum =
     (case simple_ap_guess s power_spectrum of
        Inl e \<Rightarrow> Inl e
      | Inr guess \<Rightarrow>
          (case get_ap_func (self_aperiodic_mode s) of
             Inl e \<Rightarrow> Inl e
           | Inr ap_func \<Rightarrow>
               (case curve_fit L ap_func (map_option (map Fin) fs) power_spectrum guess
                       (self_maxfev s) (ap_bounds s) (Some (self_tol s)) of
                  Inl FitError \<Rightarrow> Inl FitError
                | Inl e \<Rightarrow> Inl e
                | Inr aperiodic_params \<Rightarrow> Inr aperiodic_params)))"

text \<open>
  The sub-sample of \<^verbatim>\<open>_robust_ap_fit\<close>: the residual of the initial fit with its
  negative values set to zero, the percentile threshold, and the mask of the points at or
  below it.
\<close>

definition clip_flatspec :: "npfloat list \<Rightarrow> npfloat list" where
  "clip_flatspec flatspec = map (\<lambda>v. if flt v (Fin 0) then Fin 0 else v) flatspec"

definition robust_select ::
  "ParamSpectra \<Rightarrow> real list option \<Rightarrow> npfloat list \<Rightarrow> npfloat list
     \<Rightarrow> exn + real list \<times> npfloat list" where
  "robust_select s fs power_spectrum initial_fit =
     (case np_binop fsub power_spectrum initial_fit of
        Inl e \<Rightarrow> Inl e
      | Inr flatspec0 \<Rightarrow>
          let flatspec = clip_flatspec flatspec0
          in (case np_percentile flatspec (self_ap_percentile_thresh s) of
                Inl e \<Rightarrow> Inl e
              | Inr perc_thresh \<Rightarrow>
                  let perc_mask = map (\<lambda>v. fle v perc_thresh) flatspec
                  in (case fs of
                        None \<Rightarrow> Inl TypeError
                      | Some fs' \<Rightarrow>
                          if length fs' \<noteq> length perc_mask
                             \<or> length power_spectrum \<noteq> length perc_mask
                          then Inl IndexError
                          else Inr (mask_select fs' perc_mask,
                                    mask_select power_spectrum perc_mask))))"

text \<open>
  \<^verbatim>\<open>_robust_ap_fit\<close>.  Its handlers turn a \<^verbatim>\<open>RuntimeError\<close> or a
  \<^verbatim>\<open>TypeError\<close> of the second solver call into \<^verbatim>\<open>FitError\<close>.
\<close>

definition robust_ap_fit ::
  "lib \<Rightarrow> ParamSpectra \<Rightarrow> real list option \<Rightarrow> npfloat list \<Rightarrow> exn + real list" where
  "robust_ap_fit L s fs power_spectrum =
     (case simple_ap_fit L s fs power_spectrum of
        Inl e \<Rightarrow> Inl e
      | Inr popt \<Rightarrow>
          (case gen_aperiodic (map_option (map Fin) fs) popt None of
             Inl e \<Rightarrow> Inl e
           | Inr initial_fit \<Rightarrow>
               (case robust_select s fs power_spectrum initial_fit of
                  Inl e \<Rightarrow> Inl e
                | Inr (freqs_ignore, spectrum_ignore) \<Rightarrow>
                    (case get_ap_func (self_aperiodic_mode s) of
                       Inl e \<Rightarrow> Inl e
                     | Inr ap_func \<Rightarrow>
                         (case curve_fit L ap_func (Some (map Fin freqs_ignore)) spectrum_ignore
                                 (map Fin popt) (self_maxfev s) (ap_bounds s) (Some (self_tol s)) of
                            Inl RuntimeError \<Rightarrow> Inl FitError
                          | Inl TypeError \<Rightarrow> Inl FitError
                          | Inl e \<Rightarrow> Inl e
                          | Inr aperiodic_params \<Rightarrow> Inr aperiodic_params)))))"

section \<open>Peak fitter\<close>

definition compute_gauss_std :: "npfloat \<Rightarrow> npfloat" where
  "compute_gauss_std fwhm = fdiv fwhm (Fin (2 * sqrt (2 * ln 2)))"

definition gen_gaussian :: "lib \<Rightarrow> npfloat list \<Rightarrow> real \<Rightarrow> real \<Rightarrow> real \<Rightarrow> npfloat list" where
  "gen_gaussian L x amplitude mean std_dev =
     map (\<lambda>xi. fmul (Fin amplitude) (norm_pdf L xi mean std_dev)) x"

definition sum_of_gaussians :: "lib \<Rightarrow> band list \<Rightarrow> model_func" where
  "sum_of_gaussians L bnds x params =
     (case x of
        None \<Rightarrow> Inl TypeError
      | Some x' \<Rightarrow>
          if length params \<noteq> 3 * length bnds then Inl ValueError
          else Inr (fold (\<lambda>idx result.
                            map2 fadd result
                              (gen_gaussian L x' (params ! (3 * idx)) (params ! (3 * idx + 1))
                                 (params ! (3 * idx + 2))))
                      [0..<length bnds] (map (\<lambda>_. Fin 0) x')))"

text \<open>
  The per-band initial guess and bounds of \<^verbatim>\<open>constrained_gaussian_fit\<close>, as
  (lower, upper) pairs for amplitude, mean and standard deviation.
\<close>

definition band_bounds :: "band \<Rightarrow> (npfloat \<times> npfloat) list" where
  "band_bounds bnd =
     (case bnd of (l_bound, h_bound) \<Rightarrow>
        [(NegInf, PosInf), (l_bound, h_bound), (Fin 0, compute_gauss_std (fsub h_bound l_bound))])"

definition band_guess :: "npfloat list \<Rightarrow> npfloat list \<Rightarrow> band \<Rightarrow> exn + npfloat list" where
  "band_guess fs power_spectrum bnd =
     (case bnd of (l_bound, h_bound) \<Rightarrow>
        let in_band = map (\<lambda>f. flt l_bound f \<and> fle f h_bound) fs
        in if length power_spectrum \<noteq> length fs then Inl IndexError
           else
             (case np_max (mask_select power_spectrum in_band) of
                Inl e \<Rightarrow> Inl e
              | Inr mx \<Rightarrow>
                  Inr [mx, np_mean (mask_select fs in_band),
                       compute_gauss_std (fdiv (fsub h_bound l_bound) (Fin 2))]))"

fun gauss_guess_bounds ::
  "npfloat list \<Rightarrow> npfloat list \<Rightarrow> band list \<Rightarrow> exn + npfloat list \<times> (npfloat \<times> npfloat) list" where
  "gauss_guess_bounds fs power_spectrum [] = Inr ([], [])"
| "gauss_guess_bounds fs power_spectrum (bnd # rest) =
     (case band_guess fs power_spectrum bnd of
        Inl e \<Rightarrow> Inl e
      | Inr g \<Rightarrow>
          (case gauss_guess_bounds fs power_spectrum rest of
             Inl e \<Rightarrow> Inl e
           | Inr (gs, bs) \<Rightarrow> Inr (g @ gs, band_bounds bnd @ bs)))"

text \<open>The frequency axis and the bands in the domain of the peak fit.\<close>

definition fit_domain_freqs :: "bool \<Rightarrow> real list \<Rightarrow> npfloat list" where
  "fit_domain_freqs log_freqs fs = (if log_freqs then map (\<lambda>f. fln (Fin f)) fs else map Fin fs)"

definition fit_domain_bands :: "bool \<Rightarrow> band list \<Rightarrow> band list" where
  "fit_domain_bands log_freqs bnds =
     (if log_freqs then map (\<lambda>(l, h). (fln l, fln h)) bnds else bnds)"

definition constrained_gaussian_fit ::
  "lib \<Rightarrow> real list \<Rightarrow> npfloat list \<Rightarrow> band list \<Rightarrow> bool \<Rightarrow> exn + real list" where
  "constrained_gaussian_fit L fs power_spectrum bnds log_freqs =
     (let fs' = fit_domain_freqs log_freqs fs;
          bnds' = fit_domain_bands log_freqs bnds
      in (case gauss_guess_bounds fs' power_spectrum bnds' of
            Inl e \<Rightarrow> Inl e
          | Inr (initial_guess, bs) \<Rightarrow>
              curve_fit L (sum_of_gaussians L bnds') (Some fs') power_spectrum initial_guess 10000
                (map fst bs, map snd bs) None))"

section \<open>Peak parameters and error metrics\<close>

fun triples :: "'a list \<Rightarrow> ('a \<times> 'a \<times> 'a) list" where
  "triples (a # b # c # rest) = (a, b, c) # triples rest"
| "triples _ = []"

fun fsqrt :: "npfloat \<Rightarrow> npfloat" where
  "fsqrt (Fin a) = (if a \<ge> 0 then Fin (sqrt a) else NaN)"
| "fsqrt PosInf = PosInf"
| "fsqrt _ = NaN"

text \<open>One row of \<^verbatim>\<open>_create_peak_params\<close>: \<open>[CF, PW, BW]\<close> of one gaussian.\<close>

definition create_peak_row ::
  "ParamSpectra \<Rightarrow> real \<times> real \<times> real \<Rightarrow> exn + npfloat \<times> npfloat \<times> npfloat" where
  "create_peak_row s peak =
     (case peak of (amplitude, mean, std) \<Rightarrow>
        (case self_freqs s of
           None \<Rightarrow> Inl TypeError
         | Some fs \<Rightarrow>
             let dist = (if self_log_freqs s
                         then map (\<lambda>f. fabs (fsub (fln (Fin f)) (Fin mean))) fs
                         else map (\<lambda>f. fabs (fsub (Fin f) (Fin mean))) fs)
             in (case np_argmin dist of
                   Inl e \<Rightarrow> Inl e
                 | Inr ind \<Rightarrow>
                     let bw = (if self_log_freqs s
                               then fsub (fexp (fadd (fln (Fin (fs ! ind))) (Fin std)))
                                         (fexp (fsub (fln (Fin (fs ! ind))) (Fin std)))
                               else Fin (std * 2));
                         cf = (if self_log_freqs s then fexp (Fin mean) else Fin mean)
                     in (case py_subscript (self_modeled_spectrum s) (int ind) of
                           Inl e \<Rightarrow> Inl e
                         | Inr m \<Rightarrow>
                             (case py_subscript (self_ap_fit s) (int ind) of
                                Inl e \<Rightarrow> Inl e
                              | Inr a \<Rightarrow> Inr (cf, fsub m a, bw))))))"

fun create_peak_rows ::
  "ParamSpectra \<Rightarrow> (real \<times> real \<times> real) list \<Rightarrow> exn + (npfloat \<times> npfloat \<times> npfloat) list" where
  "create_peak_rows s [] = Inr []"
| "create_peak_rows s (peak # rest) =
     (case create_peak_row s peak of
        Inl e \<Rightarrow> Inl e
      | Inr row \<Rightarrow>
          (case create_peak_rows s rest of
             Inl e \<Rightarrow> Inl e
           | Inr rows \<Rightarrow> Inr (row # rows)))"

definition create_peak_params ::
  "ParamSpectra \<Rightarrow> real list \<Rightarrow> exn + (npfloat \<times> npfloat \<times> npfloat) list" where
  "create_peak_params s gaus_params =
     (if length gaus_params mod 3 \<noteq> 0 then Inl ValueError
      else create_peak_rows s (triples gaus_params))"

definition calc_r_squared :: "lib \<Rightarrow> ParamSpectra \<Rightarrow> ParamSpectra \<times> exn option" where
  "calc_r_squared L s =
     (case (self_power_spectrum s, self_modeled_spectrum s) of
        (Some ps, Some m) \<Rightarrow>
          (case corrcoef L ps m of
             Inl e \<Rightarrow> (s, Some e)
           | Inr r_val \<Rightarrow> (s\<lparr>self_r_squared := fmul r_val r_val\<rparr>, None))
      | _ \<Rightarrow> (s, Some TypeError))"

definition calc_error :: "ParamSpectra \<Rightarrow> ParamSpectra \<times> exn option" where
  "calc_error s =
     (let metric = self_error_metric s
      in if metric \<noteq> ''MAE'' \<and> metric \<noteq> ''MSE'' \<and> metric \<noteq> ''RMSE'' \<and> metric \<noteq> ''MAPE''
         then (s, Some ValueError)
         else
           (case (self_power_spectrum s, self_modeled_spectrum s) of
              (Some ps, Some m) \<Rightarrow>
                (case np_binop fsub ps m of
                   Inl e \<Rightarrow> (s, Some e)
                 | Inr diff \<Rightarrow>
                     if metric = ''MAE'' then (s\<lparr>self_error := np_mean (map fabs diff)\<rparr>, None)
                     else if metric = ''MSE''
                     then (s\<lparr>self_error := np_mean (map (\<lambda>d. fmul d d) diff)\<rparr>, None)
                     else if metric = ''RMSE''
                     then (s\<lparr>self_error := fsqrt (np_mean (map (\<lambda>d. fmul d d) diff))\<rparr>, None)
                     else
                       (case np_binop fdiv diff ps of
                          Inl e \<Rightarrow> (s, Some e)
                        | Inr rel \<Rightarrow> (s\<lparr>self_error := np_mean (map fabs rel)\<rparr>, None)))
            | _ \<Rightarrow> (s, Some TypeError)))"

section \<open>The fit operation\<close>

text \<open>
  A method that mutates the instance returns the instance as it is when the method ends,
  together with the exception it raised, if any: attributes assigned before a raising
  statement keep their new values.
\<close>

type_synonym outcome = "ParamSpectra \<times> exn option"

definition then_step :: "outcome \<Rightarrow> (ParamSpectra \<Rightarrow> outcome) \<Rightarrow> outcome" where
  "then_step r f = (case r of (s, None) \<Rightarrow> f s | (s, Some e) \<Rightarrow> (s, Some e))"

text \<open>The NaN/Inf pre-check at the head of the \<^verbatim>\<open>try\<close> block.\<close>

definition nan_inf_check :: "ParamSpectra \<Rightarrow> outcome" where
  "nan_inf_check s =
     (if \<not> self_check_data s then
        (case self_power_spectrum s of
           None \<Rightarrow> (s, Some TypeError)
         | Some ps \<Rightarrow>
             if list_ex isinf ps \<or> list_ex isnan ps then (s, Some FitError) else (s, None))
      else (s, None))"

text \<open>Steps (a) and (b): robust aperiodic fit, its curve, the flattened spectrum.\<close>

definition initial_ap_step :: "lib \<Rightarrow> ParamSpectra \<Rightarrow> outcome" where
  "initial_ap_step L s =
     (case self_power_spectrum s of
        None \<Rightarrow> (s, Some TypeError)
      | Some ps \<Rightarrow>
          (case robust_ap_fit L s (self_freqs s) ps of
             Inl e \<Rightarrow> (s, Some e)
           | Inr ap \<Rightarrow>
               let s1 = s\<lparr>self_aperiodic_params := map Fin ap\<rparr>
               in (case gen_aperiodic (map_option (map Fin) (self_freqs s1)) ap None of
                     Inl e \<Rightarrow> (s1, Some e)
                   | Inr apfit \<Rightarrow>
                       let s2 = s1\<lparr>self_ap_fit := Some apfit\<rparr>
                       in (case np_binop fsub ps apfit of
                             Inl e \<Rightarrow> (s2, Some e)
                           | Inr flat \<Rightarrow> (s2\<lparr>self_spectrum_flat := Some flat\<rparr>, None)))))"

text \<open>Steps (c)-(e): peak fit, peak curve, peak-removed spectrum.\<close>

definition peak_step :: "lib \<Rightarrow> ParamSpectra \<Rightarrow> outcome" where
  "peak_step L s =
     (case (self_freqs s, self_spectrum_flat s, self_power_spectrum s) of
        (Some fs, Some flat, Some ps) \<Rightarrow>
          (case constrained_gaussian_fit L fs flat (self_bands s) (self_log_freqs s) of
             Inl e \<Rightarrow> (s, Some e)
           | Inr gp \<Rightarrow>
               let s1 = s\<lparr>self_gaussian_params := gp\<rparr>
               in (case (if self_iterate_peaks s1 then Inr (self_peak_fit s1)
                         else map_sum id Some
                                (sum_of_gaussians L (self_bands s1)
                                   (Some (fit_domain_freqs (self_log_freqs s1) fs)) gp)) of
                     Inl e \<Rightarrow> (s1, Some e)
                   | Inr pf \<Rightarrow>
                       let s2 = s1\<lparr>self_peak_fit := pf\<rparr>
                       in (case pf of
                             None \<Rightarrow> (s2, Some TypeError)
                           | Some peak_fit \<Rightarrow>
                               (case np_binop fsub ps peak_fit of
                                  Inl e \<Rightarrow> (s2, Some e)
                                | Inr rm \<Rightarrow> (s2\<lparr>self_spectrum_peak_rm := Some rm\<rparr>, None)))))
      | _ \<Rightarrow> (s, Some TypeError))"

text \<open>
  Steps (f) and (g): the final simple aperiodic fit on the peak-removed spectrum, the new
  aperiodic curve, the new flattened spectrum and the full model.
\<close>

definition final_ap_step :: "lib \<Rightarrow> ParamSpectra \<Rightarrow> outcome" where
  "final_ap_step L s =
     (case (self_spectrum_peak_rm s, self_power_spectrum s, self_peak_fit s) of
        (Some rm, Some ps, Some peak_fit) \<Rightarrow>
          (case simple_ap_fit L s (self_freqs s) rm of
             Inl e \<Rightarrow> (s, Some e)
           | Inr ap \<Rightarrow>
               let s1 = s\<lparr>self_aperiodic_params := map Fin ap\<rparr>
               in (case gen_aperiodic (map_option (map Fin) (self_freqs s1)) ap None of
                     Inl e \<Rightarrow> (s1, Some e)
                   | Inr apfit \<Rightarrow>
                       let s2 = s1\<lparr>self_ap_fit := Some apfit\<rparr>
                       in (case np_binop fsub ps apfit of
                             Inl e \<Rightarrow> (s2, Some e)
                           | Inr flat \<Rightarrow>
                               let s3 = s2\<lparr>self_spectrum_flat := Some flat\<rparr>
                               in (case np_binop fadd peak_fit apfit of
                                     Inl e \<Rightarrow> (s3, Some e)
                                   | Inr m \<Rightarrow> (s3\<lparr>self_modeled_spectrum := Some m\<rparr>, None)))))
      | _ \<Rightarrow> (s, Some TypeError))"

text \<open>Step (h): peak parameters.\<close>

definition peak_params_step :: "ParamSpectra \<Rightarrow> outcome" where
  "peak_params_step s =
     (case create_peak_params s (self_gaussian_params s) of
        Inl e \<Rightarrow> (s, Some e)
      | Inr pp \<Rightarrow> (s\<lparr>self_peak_params := pp\<rparr>, None))"

text \<open>Step (i): goodness of fit and error.\<close>

definition metrics_step :: "lib \<Rightarrow> ParamSpectra \<Rightarrow> outcome" where
  "metrics_step L s = then_step (calc_r_squared L s) calc_error"

text \<open>The body of the \<^verbatim>\<open>try\<close> block of \<^verbatim>\<open>fit\<close>.\<close>

definition fit_try :: "lib \<Rightarrow> ParamSpectra \<Rightarrow> outcome" where
  "fit_try L s =
     then_step (then_step (then_step (then_step (then_step
       (nan_inf_check s) (initial_ap_step L)) (peak_step L)) (final_ap_step L))
       peak_params_step) (metrics_step L)"

text \<open>Attaching the data given to \<^verbatim>\<open>fit\<close>.\<close>

definition fit_attach ::
  "lib \<Rightarrow> real list option \<Rightarrow> npfloat list option \<Rightarrow> (real \<times> real) option \<Rightarrow> ParamSpectra
     \<Rightarrow> outcome" where
  "fit_attach L fs power_spectrum freq_range s =
     (case (fs, power_spectrum) of
        (Some fs', Some ps') \<Rightarrow> add_data L fs' ps' freq_range True s
      | (None, Some ps') \<Rightarrow> (s\<lparr>self_power_spectrum := Some ps'\<rparr>, None)
      | _ \<Rightarrow> (s, None))"

text \<open>
  \<^verbatim>\<open>fit\<close>: only a \<^verbatim>\<open>FitError\<close> raised in the \<^verbatim>\<open>try\<close> block reaches the handler,
  which re-raises it in debug mode and otherwise resets the results.
\<close>

definition fit ::
  "lib \<Rightarrow> real list option \<Rightarrow> npfloat list option \<Rightarrow> (real \<times> real) option \<Rightarrow> real
     \<Rightarrow> ParamSpectra \<Rightarrow> outcome" where
  "fit L fs power_spectrum freq_range prominence s =
     (let s0 = s\<lparr>self_prominence := prominence\<rparr>
      in if self_verbose s0 > 1 \<and> (fs = None \<or> power_spectrum = None)
         then (s0, Some AttributeError)
         else
           (case fit_attach L fs power_spectrum freq_range s0 of
              (s1, Some e) \<Rightarrow> (s1, Some e)
            | (s1, None) \<Rightarrow>
                if \<not> has_data s1 then (s1, Some NoDataError)
                else
                  (case fit_try L s1 of
                     (s2, Some FitError) \<Rightarrow>
                       if self_debug s2 then (s2, Some FitError)
                       else (reset_data_results False False True s2, None)
                   | (s2, r) \<Rightarrow> (s2, r))))"

section \<open>Result extraction\<close>

record params_out =
  out_aperiodic_params :: "npfloat list"
  out_gaussian_params :: "real list"
  out_noise_pks :: "real option list"
  out_noise_wids :: "real option list"
  out_peak_params :: "npfloat list"
  out_r_squared :: npfloat
  out_error :: npfloat

text \<open>The loop that files each recorded noise peak under its closest expected harmonic.\<close>

fun place_noise_pks ::
  "real list \<Rightarrow> (real \<times> real) list \<Rightarrow> nat \<Rightarrow> real list
     \<Rightarrow> real option list \<times> real option list \<Rightarrow> exn + real option list \<times> real option list" where
  "place_noise_pks guess_noise_pks noise_ranges ii [] acc = Inr acc"
| "place_noise_pks guess_noise_pks noise_ranges ii (noise_pk # rest) (pks, wids) =
     (case np_argmin (map (\<lambda>g. Fin \<bar>noise_pk - g\<bar>) guess_noise_pks) of
        Inl e \<Rightarrow> Inl e
      | Inr ndx \<Rightarrow>
          if ii \<ge> length noise_ranges then Inl IndexError
          else place_noise_pks guess_noise_pks noise_ranges (Suc ii) rest
                 (pks[ndx := Some noise_pk],
                  wids[ndx := Some ((snd (noise_ranges ! ii) - fst (noise_ranges ! ii)) / 2)]))"

definition get_params_out :: "ParamSpectra \<Rightarrow> exn + params_out" where
  "get_params_out s =
     (if \<not> has_model s then Inl NoModelError
      else
        (case self_max_harmonic s of
           None \<Rightarrow> Inl AttributeError
         | Some mh \<Rightarrow>
             let guess_noise_pks =
                   (case self_linenoise s of
                      None \<Rightarrow> []
                    | Some ln0 \<Rightarrow> map (\<lambda>ii. ln0 * real ii) [1..<nat (mh + 1)]);
                 empty_slots = replicate (nat mh) None
             in (case (case self_noise_pks s of
                         None \<Rightarrow> Inr (empty_slots, empty_slots)
                       | Some noise_pks \<Rightarrow>
                           (case self_noise_ranges s of
                              None \<Rightarrow> if noise_pks = [] then Inr (empty_slots, empty_slots)
                                      else Inl TypeError
                            | Some noise_ranges \<Rightarrow>
                                place_noise_pks guess_noise_pks noise_ranges 0 noise_pks
                                  (empty_slots, empty_slots))) of
                   Inl e \<Rightarrow> Inl e
                 | Inr (pks, wids) \<Rightarrow>
                     Inr \<lparr> out_aperiodic_params = self_aperiodic_params s,
                           out_gaussian_params = self_gaussian_params s,
                           out_noise_pks = pks,
                           out_noise_wids = wids,
                           out_peak_params =
                             concat (map (\<lambda>(cf, pw, bw). [cf, pw, bw]) (self_peak_params s)),
                           out_r_squared = self_r_squared s,
                           out_error = self_error s \<rparr>)))"

section \<open>Configuration\<close>

text \<open>
  The configuration of an instance apart from the harmonic-detection prominence: the
  constructor arguments and the private settings fixed by the constructor.
\<close>

definition configuration where
  "configuration s =
     (self_bands s, self_bandname s, self_l_freq s, self_h_freq s, self_aperiodic_mode s,
      self_verbose s, self_log_freqs s, self_n_division s, self_linenoise s, self_max_n_peaks s,
      self_iterate_peaks s,
      (self_ap_percentile_thresh s, self_ap_guess s, self_ap_bounds s, self_bw_std_edge s,
       self_gauss_overlap_thresh s, self_cf_bound s, self_error_metric s, self_maxfev s,
       self_tol s, self_debug s, self_check_freqs s, self_check_data s))"

definition settings where
  "settings s = (configuration s, self_prominence s)"

section \<open>States without a model\<close>

text \<open>
  A call of \<^verbatim>\<open>fit\<close> is a contained failure when it reaches the \<^verbatim>\<open>try\<close> block, the
  block raises \<^verbatim>\<open>FitError\<close> and the instance is not in debug mode.
\<close>

definition fit_contained_failure ::
  "lib \<Rightarrow> real list option \<Rightarrow> npfloat list option \<Rightarrow> (real \<times> real) option \<Rightarrow> real
     \<Rightarrow> ParamSpectra \<Rightarrow> bool" where
  "fit_contained_failure L fs power_spectrum freq_range prominence s =
     (let s0 = s\<lparr>self_prominence := prominence\<rparr>
      in \<not> (self_verbose s0 > 1 \<and> (fs = None \<or> power_spectrum = None))
         \<and> (case fit_attach L fs power_spectrum freq_range s0 of
               (s1, None) \<Rightarrow>
                 has_data s1 \<and> snd (fit_try L s1) = Some FitError
                 \<and> \<not> self_debug (fst (fit_try L s1))
             | (s1, Some e) \<Rightarrow> False))"

text \<open>
  The states the lifecycle reaches without a successful fit: a freshly constructed
  instance, an instance without a model to which data is attached (whether or not the
  conditioner accepts the data), and any instance after a contained fit failure.
\<close>

inductive no_model_state :: "lib \<Rightarrow> ParamSpectra \<Rightarrow> bool" for L :: lib where
  constructed:
    "ParamSpectra_init bands max_n_peaks log_freqs n_division l_freq h_freq prominence linenoise
        aperiodic_mode iterate_peaks verbose = Inr s
     \<Longrightarrow> no_model_state L s"
| data_attached:
    "no_model_state L s \<Longrightarrow> add_data L fs power_spectrum freq_range clear_results s = (s', r)
     \<Longrightarrow> no_model_state L s'"
| fit_failed:
    "fit_contained_failure L fs power_spectrum freq_range prominence s
     \<Longrightarrow> fit L fs power_spectrum freq_range prominence s = (s', r)
     \<Longrightarrow> no_model_state L s'"

section \<open>Reference inputs\<close>

text \<open>
  Concrete library routines and inputs on which the definitions are evaluated.  The
  reference solver accepts every problem and returns the zero vector; its variants fail to
  converge always, on the peak fit only (evaluation budget 10000), or on sub-samples of a
  single point.
\<close>

definition stub_lib :: lib where
  "stub_lib =
     \<lparr> curve_fit = (\<lambda>f x y p0 maxfev bounds tol. Inr (map (\<lambda>_. 0) p0)),
       find_peaks = (\<lambda>psd prominence. []),
       peak_widths = (\<lambda>psd peaks. Inr (map (\<lambda>_. 0) peaks)),
       interpolate_spectrum = (\<lambda>fs ps r. Inr (fs, ps)),
       corrcoef = (\<lambda>a b. Inr (Fin 1)),
       norm_pdf = (\<lambda>x m sd. Fin 0) \<rparr>"

definition no_convergence_lib :: lib where
  "no_convergence_lib = stub_lib\<lparr>curve_fit := (\<lambda>f x y p0 maxfev bounds tol. Inl RuntimeError)\<rparr>"

definition peak_fail_lib :: lib where
  "peak_fail_lib =
     stub_lib\<lparr>curve_fit := (\<lambda>f x y p0 maxfev bounds tol.
                  if maxfev = 10000 then Inl RuntimeError else Inr (map (\<lambda>_. 0) p0))\<rparr>"

definition subsample_fail_lib :: lib where
  "subsample_fail_lib =
     stub_lib\<lparr>curve_fit := (\<lambda>f x y p0 maxfev bounds tol.
                  if length y < 2 then Inl RuntimeError else Inr (map (\<lambda>_. 0) p0))\<rparr>"

definition peaks_lib :: lib where
  "peaks_lib = stub_lib\<lparr>find_peaks := (\<lambda>psd prominence. [4, 5, 9])\<rparr>"

text \<open>
  An instance with one custom band (0.5, 12), linear peak-fit domain, cutoffs 0.3 and 250,
  constructor prominence 0.8, line noise 50 Hz and knee mode; a three-point spectrum.
\<close>

definition example_instance :: ParamSpectra where
  "example_instance =
     (case ParamSpectra_init (BandList [(Fin (1/2), Fin 12)]) 6 False 1 (3/10) 250 (4/5)
             (Some 50) ''knee'' False 0 of
        Inr s \<Rightarrow> s)"

definition example_freqs :: "real list" where
  "example_freqs = [1, 11/2, 10]"

definition example_power :: "npfloat list" where
  "example_power = [Fin 1000, Fin 100, Fin 10]"

text \<open>A 10 Hz grid up to 100 Hz with a flat spectrum.\<close>

definition harmonic_grid :: "real list" where
  "harmonic_grid = [10, 20, 30, 40, 50, 60, 70, 80, 90, 100]"

definition flat_power :: "npfloat list" where
  "flat_power = replicate 10 (Fin 1)"

text \<open>The instance after a fit of the three-point spectrum with the reference solver.\<close>

definition example_fitted :: ParamSpectra where
  "example_fitted =
     fst (fit stub_lib (Some example_freqs) (Some example_power) None (1/2) example_instance)"

text \<open>A residual spectrum of 41 points rising from 0 to 40, over the frequencies 1 to 41.\<close>

definition ramp_freqs :: "real list" where
  "ramp_freqs = map (\<lambda>f. f + 1) ([0, 1, 2, 3, 4, 5, 6, 7, 8, 9] @ [10, 11, 12, 13, 14, 15, 16, 17, 18, 19]
     @ [20, 21, 22, 23, 24, 25, 26, 27, 28, 29] @ [30, 31, 32, 33, 34, 35, 36, 37, 38, 39] @ [40])"

definition ramp_power :: "npfloat list" where
  "ramp_power = map Fin ([0, 1, 2, 3, 4, 5, 6, 7, 8, 9] @ [10, 11, 12, 13, 14, 15, 16, 17, 18, 19]
     @ [20, 21, 22, 23, 24, 25, 26, 27, 28, 29] @ [30, 31, 32, 33, 34, 35, 36, 37, 38, 39] @ [40])"

text \<open>
  A solver that stops at once on every aperiodic problem other than the conditioned
  reference spectrum and its sub-samples, returning the finite part of its initial guess,
  and that answers the peak fit with one Gaussian of amplitude 1; the density routine
  is constant 1, so the fitted peak curve is 1 at every frequency.
\<close>

fun finite_part :: "npfloat \<Rightarrow> real" where
  "finite_part (Fin a) = a"
| "finite_part _ = 0"

definition guess_echo_lib :: lib where
  "guess_echo_lib =
     stub_lib\<lparr>curve_fit := (\<lambda>f x y p0 maxfev bounds tol.
                  if maxfev = 10000 then Inr [1, 0, 1]
                  else if y = [Fin 3, Fin 2, Fin 1] \<or> length y < 3 then Inr (map (\<lambda>_. 0) p0)
                  else Inr (map finite_part p0)),
              norm_pdf := (\<lambda>x m sd. Fin 1)\<rparr>"

text \<open>
  The reference instance as \<^verbatim>\<open>fit\<close> called with prominence 0.5 has it once the three-point
  spectrum is attached, and as it is when steps (a) to (e) have run with this solver.
\<close>

definition example_attached :: ParamSpectra where
  "example_attached =
     fst (fit_attach guess_echo_lib (Some example_freqs) (Some example_power) None
            (example_instance\<lparr>self_prominence := 1/2\<rparr>))"

definition example_peak_removed :: ParamSpectra where
  "example_peak_removed =
     fst (then_step (then_step (nan_inf_check example_attached) (initial_ap_step guess_echo_lib))
            (peak_step guess_echo_lib))"

text \<open>
  A spectrum on the 10 Hz grid that is flat at 10 except for a line-noise peak of 1000 at
  60 Hz: in log10 the peak has prominence 2 and, at half height, a width of one sample.
  The peak finder returns it exactly when the requested prominence is at most 2, and
  interpolating the range around it leaves the flat spectrum.  The instance is configured
  with line noise 60 Hz and prominence 2.5.
\<close>

definition peak_power :: "npfloat list" where
  "peak_power = [Fin 10, Fin 10, Fin 10, Fin 10, Fin 10, Fin 1000, Fin 10, Fin 10, Fin 10, Fin 10]"

definition prominence_probe_lib :: lib where
  "prominence_probe_lib =
     stub_lib\<lparr>find_peaks := (\<lambda>psd prominence. if prominence \<le> 2 then [5] else []),
              peak_widths := (\<lambda>psd peaks. Inr (map (\<lambda>_. 1) peaks)),
              interpolate_spectrum := (\<lambda>fs ps r. Inr (fs, map (\<lambda>_. Fin 10) ps))\<rparr>"

definition detection_instance :: ParamSpectra where
  "detection_instance =
     (case ParamSpectra_init (BandList [(Fin 5, Fin 105)]) 6 False 1 (3/10) 250 (5/2)
             (Some 60) ''knee'' False 0 of
        Inr s \<Rightarrow> s)"

section \<open>Properties of the band specification\<close>

lemma fle_not_flt: "fle a b \<Longrightarrow> \<not> flt b a"
  by (cases a; cases b) (auto simp: fle_def)

lemma not_flt_fle: "\<not> isnan a \<Longrightarrow> \<not> isnan b \<Longrightarrow> \<not> flt a b \<Longrightarrow> fle b a"
  by (cases a; cases b) (auto simp: fle_def)

lemma self_bands_reset [simp]: "self_bands (reset_data_results a b c s) = self_bands s"
  by (simp add: reset_data_results_def Let_def)

text \<open>
  Claim C8.  Whenever the band scheme resolves to a list \<open>bs\<close>, the constructor returns an
  instance whose retained band set (i) contains no band of \<open>bs\<close> whose upper bound is at most
  \<open>l_freq\<close> or whose lower bound is at least \<open>h_freq\<close>, (ii) consists of bands of \<open>bs\<close> with
  upper bound above \<open>l_freq\<close> and lower bound below \<open>h_freq\<close>, and (iii) contains every band
  of \<open>bs\<close> with non-NaN bounds that is not fully outside the cutoffs: exactly the bands
  fully outside are dropped.
\<close>

theorem retained_bands_inside_cutoffs:
  assumes "str2band bands max_n_peaks l_freq h_freq n_division = Inr (bs, nm)"
  shows "\<exists>s. ParamSpectra_init bands max_n_peaks log_freqs n_division l_freq h_freq prominence
                linenoise aperiodic_mode iterate_peaks verbose = Inr s
           \<and> (\<forall>b \<in> set bs. fle (snd b) (Fin l_freq) \<or> fle (Fin h_freq) (fst b)
                  \<longrightarrow> b \<notin> set (self_bands s))
           \<and> (\<forall>b \<in> set (self_bands s).
                  b \<in> set bs \<and> flt (Fin l_freq) (snd b) \<and> flt (fst b) (Fin h_freq))
           \<and> (\<forall>b \<in> set bs. \<not> isnan (fst b) \<and> \<not> isnan (snd b)
                  \<and> \<not> (fle (snd b) (Fin l_freq) \<or> fle (Fin h_freq) (fst b))
                  \<longrightarrow> b \<in> set (self_bands s))"
proof -
  let ?keep = "\<lambda>bnd. flt (fst bnd) (Fin h_freq) \<and> flt (Fin l_freq) (snd bnd)"
  obtain s where s: "ParamSpectra_init bands max_n_peaks log_freqs n_division l_freq h_freq
      prominence linenoise aperiodic_mode iterate_peaks verbose = Inr s"
    and b: "self_bands s = filter ?keep bs"
    using assms by (simp add: ParamSpectra_init_def)
  have 1: "\<forall>b \<in> set bs. fle (snd b) (Fin l_freq) \<or> fle (Fin h_freq) (fst b)
                  \<longrightarrow> b \<notin> set (self_bands s)"
    using b fle_not_flt by auto
  have 2: "\<forall>b \<in> set (self_bands s).
                  b \<in> set bs \<and> flt (Fin l_freq) (snd b) \<and> flt (fst b) (Fin h_freq)"
    using b by auto
  have 3: "\<forall>b \<in> set bs. \<not> isnan (fst b) \<and> \<not> isnan (snd b)
                  \<and> \<not> (fle (snd b) (Fin l_freq) \<or> fle (Fin h_freq) (fst b))
                  \<longrightarrow> b \<in> set (self_bands s)"
  proof (intro ballI impI)
    fix bnd
    assume m: "bnd \<in> set bs"
      and h: "\<not> isnan (fst bnd) \<and> \<not> isnan (snd bnd)
                \<and> \<not> (fle (snd bnd) (Fin l_freq) \<or> fle (Fin h_freq) (fst bnd))"
    have "flt (fst bnd) (Fin h_freq)"
      using h not_flt_fle [of "fst bnd" "Fin h_freq"] by auto
    moreover have "flt (Fin l_freq) (snd bnd)"
      using h not_flt_fle [of "Fin l_freq" "snd bnd"] by auto
    ultimately show "bnd \<in> set (self_bands s)"
      using b m by simp
  qed
  from s 1 2 3 show ?thesis by blast
qed

text \<open>
  The standard scheme with cutoffs 2 Hz and 40 Hz: the bands (0.3, 1.5) and (70, 150) are
  dropped, the band (4, 8) is retained.
\<close>

theorem retained_bands_inside_cutoffs_witness:
  "str2band (BandName ''standard'') 6 2 40 1 = Inr (standard_bands, ''standard'')
   \<and> (\<exists>s. ParamSpectra_init (BandName ''standard'') 6 True 1 2 40 (1/2) (Some 60) ''knee'' False 1
             = Inr s
          \<and> (Fin (3/10), Fin (3/2)) \<notin> set (self_bands s)
          \<and> (Fin 70, Fin 150) \<notin> set (self_bands s)
          \<and> (Fin 4, Fin 8) \<in> set (self_bands s))"
proof -
  have h: "str2band (BandName ''standard'') 6 2 40 1 = Inr (standard_bands, ''standard'')"
    by (simp add: str2band_def common_freq_bins_def)
  from retained_bands_inside_cutoffs [OF h, of True "1/2" "Some 60" "''knee''" False 1]
  obtain s where "ParamSpectra_init (BandName ''standard'') 6 True 1 2 40 (1/2) (Some 60)
                    ''knee'' False 1 = Inr s"
    and 1: "\<forall>b \<in> set standard_bands. fle (snd b) (Fin 2) \<or> fle (Fin 40) (fst b)
                  \<longrightarrow> b \<notin> set (self_bands s)"
    and 3: "\<forall>b \<in> set standard_bands. \<not> isnan (fst b) \<and> \<not> isnan (snd b)
                  \<and> \<not> (fle (snd b) (Fin 2) \<or> fle (Fin 40) (fst b))
                  \<longrightarrow> b \<in> set (self_bands s)"
    by blast
  moreover have "(Fin (3/10), Fin (3/2)) \<notin> set (self_bands s)"
    using 1 by (simp add: standard_bands_def fle_def)
  moreover have "(Fin 70, Fin 150) \<notin> set (self_bands s)"
    using 1 by (simp add: standard_bands_def fle_def)
  moreover have "(Fin 4, Fin 8) \<in> set (self_bands s)"
    using 3 by (simp add: standard_bands_def fle_def)
  ultimately show ?thesis using h by blast
qed

text \<open>
  Claim C6.  The claim caps the interval count of all three generated schemes at 62.  The
  cap is applied in the \<^verbatim>\<open>'log'\<close> branch only: for the scheme \<^verbatim>\<open>'linear'\<close> with a
  requested count of 63 on the range [0.3, 250], band resolution returns 63 intervals.
\<close>

theorem str2band_linear_count_not_capped:
  "\<exists>bs. str2band (BandName ''linear'') 63 (3/10) 250 1 = Inr (bs, ''linear'') \<and> length bs = 63"
  by (simp add: str2band_def common_freq_bins_def np_linspace_def consecutive_bins_def Let_def)

section \<open>Evaluation on the reference inputs\<close>

lemma log10_100 [simp]: "log 10 100 = 2"
proof -
  have "log 10 ((10::real) ^ 2) = 2" by (subst log_nat_power) simp_all
  then show ?thesis by simp
qed

lemma log10_1000 [simp]: "log 10 1000 = 3"
proof -
  have "log 10 ((10::real) ^ 3) = 3" by (subst log_nat_power) simp_all
  then show ?thesis by simp
qed

lemma replicate_small [simp]: "replicate 3 x = [x, x, x]" "replicate 2 x = [x, x]"
  by (simp_all add: eval_nat_numeral)

lemmas init_defs = ParamSpectra_init_def str2band_def reset_data_results_def

lemmas prep_defs = add_data_def has_data_def has_model_def
  prepare_data_def prepare_trim_def optional_trim_def zero_freq_guard_def list_min_def list_max_def
  prepare_powerline_def compute_max_harmonic_def np_floor_divide_def prepare_checks_def
  np_isclose_def trim_spectrum_def mask_select_def

lemmas ap_defs = robust_ap_fit_def simple_ap_fit_def simple_ap_guess_def off_guess_def kne_guess_def
  exp_guess_def truthy_def py_subscript_def py_index_def get_ap_func_def ap_bounds_def
  gen_aperiodic_def infer_ap_func_def expo_function_def expo_nk_function_def np_min_def fmin2_def
  fle_def fsub_def robust_select_def np_binop_def clip_flatspec_def np_percentile_def sort_f_def
  np_lerp_def

lemmas peak_defs = constrained_gaussian_fit_def fit_domain_freqs_def fit_domain_bands_def
  band_guess_def band_bounds_def np_max_def fmax2_def np_mean_def compute_gauss_std_def
  sum_of_gaussians_def gen_gaussian_def create_peak_params_def create_peak_row_def np_argmin_def
  calc_r_squared_def calc_error_def

lemmas fit_defs = fit_def fit_attach_def fit_try_def then_step_def nan_inf_check_def
  initial_ap_step_def peak_step_def final_ap_step_def peak_params_step_def metrics_step_def

lemma example_instance_eq:
  "ParamSpectra_init (BandList [(Fin (1/2), Fin 12)]) 6 False 1 (3/10) 250 (4/5)
     (Some 50) ''knee'' False 0 = Inr example_instance"
  by (simp add: example_instance_def init_defs)

lemma example_fit_returns:
  "snd (fit stub_lib (Some example_freqs) (Some example_power) None (1/2) example_instance) = None"
  by (simp add: Let_def fit_defs prep_defs ap_defs peak_defs stub_lib_def
      example_instance_def init_defs example_freqs_def example_power_def)

lemma example_contained_failure:
  "fit_contained_failure subsample_fail_lib (Some example_freqs) (Some example_power) None (1/2)
     example_instance"
  by (simp add: fit_contained_failure_def Let_def fit_defs prep_defs ap_defs
      subsample_fail_lib_def stub_lib_def example_instance_def init_defs example_freqs_def
      example_power_def)

section \<open>Powerline harmonics\<close>

text \<open>
  Claim C2.  The claim says that the candidate harmonics are the integer multiples of the
  configured base frequency \<open>L\<close>.  The conditioner counts the harmonics with \<open>L\<close> but
  enumerates them as multiples of the constant 60.  With \<open>L = 50\<close> on a grid reaching
  100 Hz the enumerated harmonics are 60 and 120; of detected peaks at 50, 60 and 100 Hz
  only the one at 60 Hz is accepted as line noise.
\<close>

theorem powerline_harmonics_multiples_of_60:
  "self_linenoise example_instance = Some 50
   \<and> compute_max_harmonic (Some 50) harmonic_grid = Inr 2
   \<and> prepare_harmonics 2 = [60, 120]
   \<and> self_noise_pks (fst (prepare_powerline peaks_lib example_instance harmonic_grid flat_power))
       = Some [60]"
  by (simp add: Let_def eval_nat_numeral example_instance_def init_defs prepare_powerline_def
      compute_max_harmonic_def np_floor_divide_def list_max_def prepare_harmonics_def
      detect_powerline_harmonics_peak_widths_def peaks_lib_def stub_lib_def np_isclose_def
      harmonic_grid_def flat_power_def)

section \<open>Containment of fit errors\<close>

text \<open>
  Claim C1.  The claim says that a fit error of any fit step is contained in non-debug
  mode.  A solver failure of the simple aperiodic fit is not: the handler of
  \<^verbatim>\<open>_simple_ap_fit\<close> catches \<^verbatim>\<open>FitError\<close> instead of the solver's
  \<^verbatim>\<open>RuntimeError\<close>, so the error is never turned into a \<^verbatim>\<open>FitError\<close> and leaves
  \<^verbatim>\<open>fit\<close> although the instance is not in debug mode.
\<close>

theorem simple_fit_solver_error_escapes:
  "self_debug example_instance = False
   \<and> snd (fit no_convergence_lib (Some example_freqs) (Some example_power) None (1/2)
            example_instance) = Some RuntimeError"
  by (simp add: Let_def fit_defs prep_defs ap_defs no_convergence_lib_def stub_lib_def
      example_instance_def init_defs example_freqs_def example_power_def)

section \<open>Configuration is framed by \<^verbatim>\<open>fit\<close>\<close>

lemma settings_update [simp]:
  "settings (s\<lparr>self_freqs := a1\<rparr>) = settings s"
  "settings (s\<lparr>self_freq_range := a2\<rparr>) = settings s"
  "settings (s\<lparr>self_freq_res := a3\<rparr>) = settings s"
  "settings (s\<lparr>self_power_spectrum := a4\<rparr>) = settings s"
  "settings (s\<lparr>self_aperiodic_params := a5\<rparr>) = settings s"
  "settings (s\<lparr>self_gaussian_params := a6\<rparr>) = settings s"
  "settings (s\<lparr>self_peak_params := a7\<rparr>) = settings s"
  "settings (s\<lparr>self_r_squared := a8\<rparr>) = settings s"
  "settings (s\<lparr>self_error := a9\<rparr>) = settings s"
  "settings (s\<lparr>self_modeled_spectrum := b1\<rparr>) = settings s"
  "settings (s\<lparr>self_spectrum_flat := b2\<rparr>) = settings s"
  "settings (s\<lparr>self_spectrum_peak_rm := b3\<rparr>) = settings s"
  "settings (s\<lparr>self_ap_fit := b4\<rparr>) = settings s"
  "settings (s\<lparr>self_peak_fit := b5\<rparr>) = settings s"
  "settings (s\<lparr>self_noise_pks := b6\<rparr>) = settings s"
  "settings (s\<lparr>self_noise_ranges := b7\<rparr>) = settings s"
  "settings (s\<lparr>self_max_harmonic := b8\<rparr>) = settings s"
  by (simp_all add: settings_def configuration_def)

lemma settings_reset [simp]: "settings (reset_data_results a b c s) = settings s"
  by (simp add: reset_data_results_def Let_def)

lemma settings_prepare_powerline:
  "prepare_powerline L s fs ps = (s', r) \<Longrightarrow> settings s' = settings s"
  by (auto simp: prepare_powerline_def Let_def split: sum.splits prod.splits if_splits)

lemma settings_prepare_data:
  "prepare_data L s fs ps fr = (s', r) \<Longrightarrow> settings s' = settings s"
  by (auto simp: prepare_data_def split: sum.splits prod.splits dest: settings_prepare_powerline)

lemma settings_add_data:
  "add_data L fs ps fr cr s = (s', r) \<Longrightarrow> settings s' = settings s"
proof -
  assume a: "add_data L fs ps fr cr s = (s', r)"
  let ?s0 = "reset_data_results (has_data s) (has_data s) (has_model s \<and> cr) s"
  obtain s1 r1 where p: "prepare_data L ?s0 fs ps fr = (s1, r1)"
    by (cases "prepare_data L ?s0 fs ps fr")
  then have s1: "settings s1 = settings s"
    using settings_prepare_data [OF p] by simp
  have "settings s' = settings s1"
    using a p by (cases r1) (auto simp: add_data_def Let_def)
  with s1 show ?thesis by simp
qed

lemma settings_fit_attach:
  "fit_attach L fs ps fr s = (s', r) \<Longrightarrow> settings s' = settings s"
  by (cases fs; cases ps) (auto simp: fit_attach_def dest: settings_add_data)

lemma settings_nan_inf_check: "nan_inf_check s = (s', r) \<Longrightarrow> settings s' = settings s"
  by (auto simp: nan_inf_check_def split: option.splits if_splits)

lemma settings_initial_ap_step: "initial_ap_step L s = (s', r) \<Longrightarrow> settings s' = settings s"
  by (auto simp: initial_ap_step_def Let_def split: option.splits sum.splits)

lemma settings_peak_step: "peak_step L s = (s', r) \<Longrightarrow> settings s' = settings s"
  by (auto simp: peak_step_def Let_def split: option.splits sum.splits if_splits)

lemma settings_final_ap_step: "final_ap_step L s = (s', r) \<Longrightarrow> settings s' = settings s"
  by (auto simp: final_ap_step_def Let_def split: option.splits sum.splits)

lemma settings_peak_params_step: "peak_params_step s = (s', r) \<Longrightarrow> settings s' = settings s"
  by (auto simp: peak_params_step_def split: sum.splits)

lemma settings_calc_r_squared: "calc_r_squared L s = (s', r) \<Longrightarrow> settings s' = settings s"
  by (auto simp: calc_r_squared_def split: option.splits sum.splits)

lemma settings_calc_error: "calc_error s = (s', r) \<Longrightarrow> settings s' = settings s"
  by (auto simp: calc_error_def Let_def split: option.splits sum.splits if_splits)

lemma settings_then_step:
  assumes "then_step x f = (s', r)"
    and "settings (fst x) = c" and "\<And>s s' r. f s = (s', r) \<Longrightarrow> settings s' = settings s"
  shows "settings s' = c"
  using assms by (cases x) (auto simp: then_step_def split: option.splits)

lemma settings_metrics_step: "metrics_step L s = (s', r) \<Longrightarrow> settings s' = settings s"
proof -
  assume a: "metrics_step L s = (s', r)"
  obtain s1 r1 where c: "calc_r_squared L s = (s1, r1)" by (cases "calc_r_squared L s")
  have "settings s1 = settings s" by (rule settings_calc_r_squared [OF c])
  then show ?thesis
    using a c settings_calc_error
    by (auto simp: metrics_step_def then_step_def split: option.splits)
qed

lemma settings_fit_try: "fit_try L s = (s', r) \<Longrightarrow> settings s' = settings s"
proof -
  assume a: "fit_try L s = (s', r)"
  obtain s1 r1 where 1: "nan_inf_check s = (s1, r1)" by (cases "nan_inf_check s")
  obtain s2 r2 where 2: "then_step (s1, r1) (initial_ap_step L) = (s2, r2)"
    by (cases "then_step (s1, r1) (initial_ap_step L)")
  obtain s3 r3 where 3: "then_step (s2, r2) (peak_step L) = (s3, r3)"
    by (cases "then_step (s2, r2) (peak_step L)")
  obtain s4 r4 where 4: "then_step (s3, r3) (final_ap_step L) = (s4, r4)"
    by (cases "then_step (s3, r3) (final_ap_step L)")
  obtain s5 r5 where 5: "then_step (s4, r4) peak_params_step = (s5, r5)"
    by (cases "then_step (s4, r4) peak_params_step")
  have 6: "then_step (s5, r5) (metrics_step L) = (s', r)"
    using a 1 2 3 4 5 by (simp add: fit_try_def)
  have e1: "settings s1 = settings s" by (rule settings_nan_inf_check [OF 1])
  have e2: "settings s2 = settings s"
    by (rule settings_then_step [OF 2]) (simp_all add: e1 settings_initial_ap_step)
  have e3: "settings s3 = settings s"
    by (rule settings_then_step [OF 3]) (simp_all add: e2 settings_peak_step)
  have e4: "settings s4 = settings s"
    by (rule settings_then_step [OF 4]) (simp_all add: e3 settings_final_ap_step)
  have e5: "settings s5 = settings s"
    by (rule settings_then_step [OF 5]) (simp_all add: e4 settings_peak_params_step)
  show ?thesis
    by (rule settings_then_step [OF 6]) (simp_all add: e5 settings_metrics_step)
qed

text \<open>The shape of a call of \<^verbatim>\<open>fit\<close>, by cases on where it ends.\<close>

lemma fit_cases:
  assumes "fit L fs ps fr p s = (s', r)"
  obtains (attribute_error) "s' = s\<lparr>self_prominence := p\<rparr>" "r = Some AttributeError"
  | (attach_error) e where "fit_attach L fs ps fr (s\<lparr>self_prominence := p\<rparr>) = (s', Some e)"
      "r = Some e"
  | (no_data) "fit_attach L fs ps fr (s\<lparr>self_prominence := p\<rparr>) = (s', None)" "r = Some NoDataError"
  | (contained) s1 s2 where "fit_attach L fs ps fr (s\<lparr>self_prominence := p\<rparr>) = (s1, None)"
      "has_data s1" "fit_try L s1 = (s2, Some FitError)" "\<not> self_debug s2"
      "s' = reset_data_results False False True s2" "r = None"
  | (ended) s1 where "fit_attach L fs ps fr (s\<lparr>self_prominence := p\<rparr>) = (s1, None)"
      "has_data s1" "fit_try L s1 = (s', r)"
proof -
  let ?s0 = "s\<lparr>self_prominence := p\<rparr>"
  obtain s1 r1 where a: "fit_attach L fs ps fr ?s0 = (s1, r1)" by (cases "fit_attach L fs ps fr ?s0")
  obtain s2 r2 where t: "fit_try L s1 = (s2, r2)" by (cases "fit_try L s1")
  have eq: "fit L fs ps fr p s =
      (if self_verbose s > 1 \<and> (fs = None \<or> ps = None) then (?s0, Some AttributeError)
       else case r1 of
         Some e \<Rightarrow> (s1, Some e)
       | None \<Rightarrow>
           if \<not> has_data s1 then (s1, Some NoDataError)
           else if r2 = Some FitError \<and> \<not> self_debug s2
           then (reset_data_results False False True s2, None)
           else (s2, r2))"
    using a t by (auto simp: fit_def Let_def split: option.splits exn.splits)
  consider "self_verbose s > 1 \<and> (fs = None \<or> ps = None)"
    | e where "\<not> (self_verbose s > 1 \<and> (fs = None \<or> ps = None))" "r1 = Some e"
    | "\<not> (self_verbose s > 1 \<and> (fs = None \<or> ps = None))" "r1 = None" "\<not> has_data s1"
    | "\<not> (self_verbose s > 1 \<and> (fs = None \<or> ps = None))" "r1 = None" "has_data s1"
      "r2 = Some FitError \<and> \<not> self_debug s2"
    | "\<not> (self_verbose s > 1 \<and> (fs = None \<or> ps = None))" "r1 = None" "has_data s1"
      "\<not> (r2 = Some FitError \<and> \<not> self_debug s2)"
    by (cases r1) blast+
  then show thesis
  proof cases
    case 1
    with eq assms have "s' = ?s0" "r = Some AttributeError" by simp_all
    then show thesis by (rule attribute_error)
  next
    case (2 e)
    with eq assms have "s' = s1" "r = Some e" by simp_all
    with a 2 show thesis using attach_error [of e] by simp
  next
    case 3
    with eq assms have "s' = s1" "r = Some NoDataError" by simp_all
    with a 3 show thesis using no_data by simp
  next
    case 4
    with eq assms have "s' = reset_data_results False False True s2" "r = None" by simp_all
    with a t 4 show thesis using contained [of s1 s2] by simp
  next
    case 5
    with eq assms have "s' = s2" "r = r2" by simp_all
    with a t 5 show thesis using ended [of s1] by simp
  qed
qed

lemma settings_fit:
  assumes "fit L fs ps fr p s = (s', r)"
  shows "settings s' = settings (s\<lparr>self_prominence := p\<rparr>)"
  using assms
proof (cases rule: fit_cases)
  case attribute_error
  then show ?thesis by simp
next
  case (attach_error e)
  then show ?thesis using settings_fit_attach by blast
next
  case no_data
  then show ?thesis using settings_fit_attach by blast
next
  case (contained s1 s2)
  then show ?thesis using settings_fit_attach settings_fit_try settings_reset by metis
next
  case (ended s1)
  then show ?thesis using settings_fit_attach settings_fit_try by metis
qed

lemma configuration_prominence [simp]:
  "configuration (s\<lparr>self_prominence := p\<rparr>) = configuration s"
  by (simp add: configuration_def)

lemma fit_settings_fst:
  "settings (fst (fit L fs ps fr p s)) = (configuration s, p)"
  using settings_fit [of L fs ps fr p s "fst (fit L fs ps fr p s)" "snd (fit L fs ps fr p s)"]
  by (simp add: settings_def)

lemma detection_instance_fields:
  "self_prominence detection_instance = 5/2" "self_linenoise detection_instance = Some 60"
  by (simp_all add: detection_instance_def init_defs Let_def)

lemma prepare_harmonics_one: "prepare_harmonics 1 = [60]"
proof -
  have "[1..<nat (1 + 1)] = [1::nat]" by (simp add: upt_rec)
  then show ?thesis by (simp add: prepare_harmonics_def)
qed

lemma probe_fit:
  "snd (fit prominence_probe_lib (Some harmonic_grid) (Some peak_power) None (1/2)
          detection_instance) = None"
  "self_noise_pks (fst (fit prominence_probe_lib (Some harmonic_grid) (Some peak_power) None (1/2)
          detection_instance)) = Some [60]"
  by (simp_all add: Let_def fit_defs prep_defs ap_defs peak_defs prominence_probe_lib_def
      stub_lib_def detection_instance_def init_defs harmonic_grid_def peak_power_def
      detect_powerline_harmonics_peak_widths_def prepare_harmonics_one)

lemma probe_add_data:
  "add_data prominence_probe_lib harmonic_grid peak_power None True detection_instance = (s', r)
   \<Longrightarrow> r = None \<and> self_noise_pks s' = Some []"
  by (auto simp add: Let_def prep_defs prominence_probe_lib_def
      stub_lib_def detection_instance_def init_defs harmonic_grid_def peak_power_def
      detect_powerline_harmonics_peak_widths_def prepare_harmonics_one)


text \<open>Only the powerline detection calls the peak finder.\<close>

lemma lib_find_peaks_update:
  "curve_fit (L\<lparr>find_peaks := g\<rparr>) = curve_fit L"
  "peak_widths (L\<lparr>find_peaks := g\<rparr>) = peak_widths L"
  "interpolate_spectrum (L\<lparr>find_peaks := g\<rparr>) = interpolate_spectrum L"
  "corrcoef (L\<lparr>find_peaks := g\<rparr>) = corrcoef L"
  "norm_pdf (L\<lparr>find_peaks := g\<rparr>) = norm_pdf L"
  "find_peaks (L\<lparr>find_peaks := g\<rparr>) = g"
  by simp_all

lemma interpolate_ranges_find_peaks:
  "interpolate_ranges (L\<lparr>find_peaks := g\<rparr>) fs ps rs = interpolate_ranges L fs ps rs"
  by (induction rs arbitrary: fs ps) (auto split: sum.splits)

lemma simple_ap_fit_find_peaks:
  "simple_ap_fit (L\<lparr>find_peaks := g\<rparr>) = simple_ap_fit L"
  by (intro ext) (unfold simple_ap_fit_def lib_find_peaks_update, rule refl)

lemma robust_ap_fit_find_peaks:
  "robust_ap_fit (L\<lparr>find_peaks := g\<rparr>) = robust_ap_fit L"
  by (intro ext) (unfold robust_ap_fit_def simple_ap_fit_find_peaks lib_find_peaks_update, rule refl)

lemma sum_of_gaussians_find_peaks:
  "sum_of_gaussians (L\<lparr>find_peaks := g\<rparr>) = sum_of_gaussians L"
  by (intro ext) (unfold sum_of_gaussians_def gen_gaussian_def lib_find_peaks_update, rule refl)

lemma constrained_gaussian_fit_find_peaks:
  "constrained_gaussian_fit (L\<lparr>find_peaks := g\<rparr>) = constrained_gaussian_fit L"
  by (intro ext)
     (unfold constrained_gaussian_fit_def sum_of_gaussians_find_peaks lib_find_peaks_update,
      rule refl)

lemma fit_try_find_peaks:
  "fit_try (L\<lparr>find_peaks := g\<rparr>) = fit_try L"
proof -
  have 1: "initial_ap_step (L\<lparr>find_peaks := g\<rparr>) = initial_ap_step L"
    by (intro ext) (unfold initial_ap_step_def robust_ap_fit_find_peaks, rule refl)
  have 2: "peak_step (L\<lparr>find_peaks := g\<rparr>) = peak_step L"
    by (intro ext)
       (unfold peak_step_def constrained_gaussian_fit_find_peaks sum_of_gaussians_find_peaks,
        rule refl)
  have 3: "final_ap_step (L\<lparr>find_peaks := g\<rparr>) = final_ap_step L"
    by (intro ext) (unfold final_ap_step_def simple_ap_fit_find_peaks, rule refl)
  have 4: "metrics_step (L\<lparr>find_peaks := g\<rparr>) = metrics_step L"
    by (intro ext) (unfold metrics_step_def calc_r_squared_def lib_find_peaks_update, rule refl)
  show ?thesis by (intro ext) (unfold fit_try_def 1 2 3 4, rule refl)
qed

lemma detect_detector:
  "detect_powerline_harmonics_peak_widths (L\<lparr>find_peaks := \<lambda>psd q. find_peaks L psd p\<rparr>)
       fs ps hs p
     = detect_powerline_harmonics_peak_widths L fs ps hs p"
  by (unfold detect_powerline_harmonics_peak_widths_def lib_find_peaks_update, rule refl)

lemma prepare_powerline_detector:
  "self_prominence s = p \<Longrightarrow>
     prepare_powerline (L\<lparr>find_peaks := \<lambda>psd q. find_peaks L psd p\<rparr>) s fs ps
       = prepare_powerline L s fs ps"
proof -
  assume p: "self_prominence s = p"
  have q: "self_prominence (s\<lparr>self_max_harmonic := m\<rparr>) = p" for m using p by simp
  show ?thesis
    by (unfold prepare_powerline_def Let_def q detect_detector interpolate_ranges_find_peaks,
        rule refl)
qed

lemma self_prominence_reset:
  "self_prominence (reset_data_results a b c s) = self_prominence s"
  by (simp add: reset_data_results_def Let_def)

lemma add_data_detector:
  "self_prominence s = p \<Longrightarrow>
     add_data (L\<lparr>find_peaks := \<lambda>psd q. find_peaks L psd p\<rparr>) fs ps fr cr s
       = add_data L fs ps fr cr s"
proof -
  assume p: "self_prominence s = p"
  have q: "prepare_powerline (L\<lparr>find_peaks := \<lambda>psd q. find_peaks L psd p\<rparr>)
             (reset_data_results a b c s) = prepare_powerline L (reset_data_results a b c s)"
    for a b c
    using prepare_powerline_detector [of "reset_data_results a b c s" p L] p
    by (intro ext) (simp add: self_prominence_reset)
  show ?thesis
    by (unfold add_data_def prepare_data_def Let_def q, rule refl)
qed

lemma fit_detector_receives_argument:
  "fit (L\<lparr>find_peaks := \<lambda>psd q. find_peaks L psd p\<rparr>) fs ps fr p s = fit L fs ps fr p s"
proof -
  have q: "add_data (L\<lparr>find_peaks := \<lambda>psd q. find_peaks L psd p\<rparr>) a b fr True
             (s\<lparr>self_prominence := p\<rparr>)
           = add_data L a b fr True (s\<lparr>self_prominence := p\<rparr>)" for a b
    by (rule add_data_detector) simp
  show ?thesis
    by (unfold fit_def fit_attach_def Let_def q fit_try_find_peaks, rule refl)
qed

text \<open>
  Claim C5.  The constructor takes \<open>prominence\<close> as the value to use for finding the
  powerline peaks, and the claim has the detection use that value and the configuration stay
  as constructed.  The code does otherwise: \<^verbatim>\<open>fit\<close> has a \<open>prominence\<close> parameter of its
  own (default 0.5) and assigns it to the instance as its first statement.  So for every
  call of \<^verbatim>\<open>fit\<close>: the stored prominence is the argument of the call when the call ends,
  whatever it ends with; every other configuration field is unchanged; the outcome does not
  depend on the prominence stored before the call; and a peak finder that disregards the
  prominence it is handed and works with the argument of \<^verbatim>\<open>fit\<close> gives the same outcome, that
  is, whenever \<^verbatim>\<open>fit\<close> conditions data the detector receives the argument of \<^verbatim>\<open>fit\<close>.
  On an instance constructed with prominence 2.5 and a spectrum whose 60 Hz peak has
  prominence 2: \<^verbatim>\<open>add_data\<close> alone detects with the constructor's 2.5 and records no noise
  peak, while \<^verbatim>\<open>fit\<close> with its default detects with 0.5, records the peak at 60 Hz and
  leaves 0.5 stored in place of 2.5.
\<close>

theorem fit_overwrites_constructor_prominence:
  "self_prominence (fst (fit L fs ps fr p s)) = p
   \<and> configuration (fst (fit L fs ps fr p s)) = configuration s
   \<and> fit L fs ps fr p (s\<lparr>self_prominence := q\<rparr>) = fit L fs ps fr p s
   \<and> fit (L\<lparr>find_peaks := \<lambda>psd received. find_peaks L psd p\<rparr>) fs ps fr p s = fit L fs ps fr p s
   \<and> self_prominence detection_instance = 5/2
   \<and> snd (add_data prominence_probe_lib harmonic_grid peak_power None True detection_instance) = None
   \<and> self_noise_pks
        (fst (add_data prominence_probe_lib harmonic_grid peak_power None True detection_instance))
       = Some []
   \<and> snd (fit prominence_probe_lib (Some harmonic_grid) (Some peak_power) None (1/2)
             detection_instance) = None
   \<and> self_noise_pks
        (fst (fit prominence_probe_lib (Some harmonic_grid) (Some peak_power) None (1/2)
                detection_instance))
       = Some [60]
   \<and> self_prominence
        (fst (fit prominence_probe_lib (Some harmonic_grid) (Some peak_power) None (1/2)
                detection_instance))
       = 1/2"
proof -
  have st: "settings (fst (fit L' fs' ps' fr' p' s')) = (configuration s', p')" for L' fs' ps' fr' p' s'
    by (rule fit_settings_fst)
  have 1: "self_prominence (fst (fit L' fs' ps' fr' p' s')) = p'" for L' fs' ps' fr' p' s'
    using st [of L' fs' ps' fr' p' s'] by (simp add: settings_def)
  have 2: "configuration (fst (fit L fs ps fr p s)) = configuration s"
    using st [of L fs ps fr p s] by (simp add: settings_def)
  have 3: "fit L fs ps fr p (s\<lparr>self_prominence := q\<rparr>) = fit L fs ps fr p s"
    by (simp add: fit_def)
  have 4: "fit (L\<lparr>find_peaks := \<lambda>psd received. find_peaks L psd p\<rparr>) fs ps fr p s = fit L fs ps fr p s"
    by (rule fit_detector_receives_argument)
  obtain s' r where a: "add_data prominence_probe_lib harmonic_grid peak_power None True
      detection_instance = (s', r)"
    by (cases "add_data prominence_probe_lib harmonic_grid peak_power None True detection_instance")
  from probe_add_data [OF a] a
  have 5: "snd (add_data prominence_probe_lib harmonic_grid peak_power None True detection_instance)
      = None"
    "self_noise_pks
        (fst (add_data prominence_probe_lib harmonic_grid peak_power None True detection_instance))
       = Some []"
    by simp_all
  show ?thesis
    using 1 2 3 4 5 probe_fit detection_instance_fields(1) by simp
qed

section \<open>Availability of the model fit record\<close>

lemma aperiodic_prepare_powerline:
  "prepare_powerline L s fs ps = (s', r) \<Longrightarrow> self_aperiodic_params s' = self_aperiodic_params s"
  by (auto simp: prepare_powerline_def Let_def split: sum.splits prod.splits if_splits)

lemma aperiodic_prepare_data:
  "prepare_data L s fs ps fr = (s', r) \<Longrightarrow> self_aperiodic_params s' = self_aperiodic_params s"
  by (auto simp: prepare_data_def split: sum.splits prod.splits dest: aperiodic_prepare_powerline)

lemma no_model_reset: "\<not> has_model (reset_data_results a b True s)"
  by (simp add: has_model_def reset_data_results_def Let_def list_all_iff)

lemma no_model_init:
  "ParamSpectra_init bands max_n_peaks log_freqs n_division l_freq h_freq prominence linenoise
      aperiodic_mode iterate_peaks verbose = Inr s \<Longrightarrow> \<not> has_model s"
  using no_model_reset
  by (auto simp: ParamSpectra_init_def split: sum.splits prod.splits)

lemma no_model_add_data:
  assumes "\<not> has_model s" and "add_data L fs ps fr cr s = (s', r)"
  shows "\<not> has_model s'"
proof -
  let ?s0 = "reset_data_results (has_data s) (has_data s) (has_model s \<and> cr) s"
  obtain s1 r1 where p: "prepare_data L ?s0 fs ps fr = (s1, r1)"
    by (cases "prepare_data L ?s0 fs ps fr")
  have "self_aperiodic_params ?s0 = self_aperiodic_params s"
    using assms(1) by (simp add: reset_data_results_def Let_def)
  then have "self_aperiodic_params s1 = self_aperiodic_params s"
    using aperiodic_prepare_data [OF p] by simp
  moreover have "self_aperiodic_params s' = self_aperiodic_params s1"
    using assms(2) p by (cases r1) (auto simp: add_data_def Let_def)
  ultimately show ?thesis using assms(1) by (simp add: has_model_def)
qed

lemma no_model_contained:
  assumes "fit_contained_failure L fs ps fr p s" and "fit L fs ps fr p s = (s', r)"
  shows "\<not> has_model s' \<and> r = None"
proof -
  let ?s0 = "s\<lparr>self_prominence := p\<rparr>"
  obtain s1 r1 where a: "fit_attach L fs ps fr ?s0 = (s1, r1)"
    by (cases "fit_attach L fs ps fr ?s0")
  obtain s2 r2 where t: "fit_try L s1 = (s2, r2)"
    by (cases "fit_try L s1")
  from assms(1) a t have c: "\<not> (self_verbose s > 1 \<and> (fs = None \<or> ps = None))" "r1 = None"
      "has_data s1" "r2 = Some FitError" "\<not> self_debug s2"
    by (auto simp: fit_contained_failure_def Let_def split: option.splits)
  then have "fit L fs ps fr p s = (reset_data_results False False True s2, None)"
    using a t by (simp add: fit_def Let_def)
  with assms(2) have "s' = reset_data_results False False True s2" "r = None" by simp_all
  then show ?thesis using no_model_reset by simp
qed

text \<open>
  In every state reached by construction, by attaching data to an instance without a
  model, or by a contained fit failure (from any state, so also after an earlier successful
  fit), requesting the model fit record raises the No-model error.
\<close>

theorem no_model_error_without_fit:
  assumes "no_model_state L s"
  shows "get_params_out s = Inl NoModelError"
proof -
  from assms have "\<not> has_model s"
  proof induction
    case (constructed bands max_n_peaks log_freqs n_division l_freq h_freq prominence linenoise
        aperiodic_mode iterate_peaks verbose s)
    then show ?case by (rule no_model_init)
  next
    case (data_attached s fs power_spectrum freq_range clear_results s' r)
    then show ?case using no_model_add_data by blast
  next
    case (fit_failed fs power_spectrum freq_range prominence s s' r)
    then show ?case using no_model_contained by blast
  qed
  then show ?thesis by (simp add: get_params_out_def)
qed

text \<open>
  A freshly constructed instance, and the instance after a fit whose robust aperiodic fit
  failed on its sub-sample and was contained.
\<close>

theorem no_model_error_without_fit_witness:
  "no_model_state stub_lib example_instance
   \<and> get_params_out example_instance = Inl NoModelError
   \<and> fit_contained_failure subsample_fail_lib (Some example_freqs) (Some example_power) None (1/2)
        example_instance
   \<and> get_params_out
        (fst (fit subsample_fail_lib (Some example_freqs) (Some example_power) None (1/2)
                example_instance))
       = Inl NoModelError"
proof -
  have a: "no_model_state stub_lib example_instance"
    by (rule no_model_state.constructed [OF example_instance_eq])
  have b: "no_model_state subsample_fail_lib
      (fst (fit subsample_fail_lib (Some example_freqs) (Some example_power) None (1/2)
              example_instance))"
    by (rule no_model_state.fit_failed [OF example_contained_failure]) (rule surjective_pairing)
  show ?thesis
    using a b example_contained_failure no_model_error_without_fit [OF a]
      no_model_error_without_fit [OF b]
    by simp
qed

text \<open>
  Claim C7.  The record must not be available before a successful fit, and \<^verbatim>\<open>has_model\<close>
  documents the aperiodic parameters as NaN if no model has been fit; the handler of
  \<^verbatim>\<open>fit\<close> clears interim results because partial results are not to be read after a
  failure.  The code breaks this on a fresh instance whose first fit fails in the peak fit:
  the solver's error is not converted to \<^verbatim>\<open>FitError\<close> (unlike in the robust aperiodic
  fit), so it leaves \<^verbatim>\<open>fit\<close> past the handler; no fit has succeeded, yet the aperiodic
  parameters of step (a) are in place and the record is returned instead of the No-model
  error.
\<close>

theorem partial_record_after_peak_fit_error:
  "snd (fit peak_fail_lib (Some example_freqs) (Some example_power) None (1/2) example_instance)
     = Some RuntimeError
   \<and> get_params_out
       (fst (fit peak_fail_lib (Some example_freqs) (Some example_power) None (1/2)
               example_instance))
     = Inr \<lparr> out_aperiodic_params = [Fin 0, Fin 0, Fin 0], out_gaussian_params = [],
             out_noise_pks = [], out_noise_wids = [], out_peak_params = [],
             out_r_squared = NaN, out_error = NaN \<rparr>"
  by (simp add: Let_def fit_defs prep_defs ap_defs peak_defs peak_fail_lib_def
      stub_lib_def example_instance_def init_defs example_freqs_def example_power_def
      get_params_out_def)

section \<open>Initial guesses of the simple aperiodic fit\<close>

lemma py_index_last: "xs \<noteq> [] \<Longrightarrow> py_index xs (- 1) = Inr (last xs)"
proof -
  assume a: "xs \<noteq> []"
  then have n: "nat (int (length xs) + - 1) = length xs - 1" by (cases xs) auto
  have l: "1 \<le> int (length xs)" using a by (cases xs) auto
  have "py_index xs (- 1) = Inr (xs ! nat (int (length xs) + - 1))"
    unfolding py_index_def using l by simp
  then show ?thesis using n a by (simp add: last_conv_nth)
qed

lemma py_index_first: "xs \<noteq> [] \<Longrightarrow> py_index xs 0 = Inr (hd xs)"
  by (cases xs) (simp_all add: py_index_def)

lemma py_index_second: "2 \<le> length xs \<Longrightarrow> py_index xs 1 = Inr (xs ! 1)"
  by (simp add: py_index_def)

lemma simple_ap_guess_default:
  assumes "self_ap_guess s = (None, k, None)"
    and "self_power_spectrum s = Some P" "P \<noteq> []"
    and "self_freqs s = Some F" "F \<noteq> []"
    and "2 \<le> length arg"
  shows "simple_ap_guess s arg =
           Inr ([arg ! 1] @ (if self_aperiodic_mode s = ''knee'' then [Fin k] else [])
                @ [fabs (fdiv (fsub (last P) (hd P))
                              (fsub (flog10 (Fin (last F))) (flog10 (Fin (hd F)))))])"
proof -
  have o: "off_guess s arg = Inr (arg ! 1)"
    using assms(1,6) by (simp add: off_guess_def truthy_def py_index_second)
  have e: "exp_guess s = Inr (fabs (fdiv (fsub (last P) (hd P))
                              (fsub (flog10 (Fin (last F))) (flog10 (Fin (hd F))))))"
    using assms(1-5)
    by (simp add: exp_guess_def truthy_def py_subscript_def py_index_last py_index_first)
  have k: "kne_guess s = (if self_aperiodic_mode s = ''knee'' then [Fin k] else [])"
    using assms(1) by (simp add: kne_guess_def)
  show ?thesis unfolding simple_ap_guess_def o e k by simp
qed

lemma simple_ap_fit_default:
  assumes "self_ap_guess s = (None, k, None)"
    and "self_power_spectrum s = Some P" "P \<noteq> []"
    and "self_freqs s = Some F" "F \<noteq> []"
    and "2 \<le> length arg"
    and "get_ap_func (self_aperiodic_mode s) = Inr ap_func"
  shows "simple_ap_fit L s fs arg =
           (case curve_fit L ap_func (map_option (map Fin) fs) arg
                   ([arg ! 1] @ (if self_aperiodic_mode s = ''knee'' then [Fin k] else [])
                    @ [fabs (fdiv (fsub (last P) (hd P))
                                  (fsub (flog10 (Fin (last F))) (flog10 (Fin (hd F)))))])
                   (self_maxfev s) (ap_bounds s) (Some (self_tol s)) of
              Inl e \<Rightarrow> Inl e
            | Inr ap \<Rightarrow> Inr ap)"
    (is "_ = (case ?call of Inl e \<Rightarrow> Inl e | Inr ap \<Rightarrow> Inr ap)")
proof -
  have u: "simple_ap_fit L s fs arg =
      (case ?call of Inl FitError \<Rightarrow> Inl FitError | Inl e \<Rightarrow> Inl e | Inr ap \<Rightarrow> Inr ap)"
    unfolding simple_ap_fit_def simple_ap_guess_default [OF assms(1-6)] assms(7) by simp
  show ?thesis
  proof (cases ?call)
    case (Inl e)
    then show ?thesis unfolding u by (cases e) simp_all
  next
    case (Inr ap)
    then show ?thesis unfolding u by simp
  qed
qed

lemma final_ap_step_raises:
  assumes "self_spectrum_peak_rm s = Some rm" "self_power_spectrum s = Some P"
    "self_peak_fit s = Some pf" "simple_ap_fit L s (self_freqs s) rm = Inl e"
  shows "final_ap_step L s = (s, Some e)"
  using assms by (simp add: final_ap_step_def)

lemma final_ap_step_params:
  assumes "self_spectrum_peak_rm s = Some rm" "self_power_spectrum s = Some P"
    "self_peak_fit s = Some pf" "simple_ap_fit L s (self_freqs s) rm = Inr ap"
  shows "self_aperiodic_params (fst (final_ap_step L s)) = map Fin ap"
  using assms by (simp add: final_ap_step_def Let_def split: sum.splits)

lemma fabs_nonneg: "\<not> flt (fabs x) (Fin 0)"
  by (cases x) auto

lemma exp_guess_finite:
  assumes "hd P = Fin a" "last P = Fin b" "0 < hd F" "0 < last F"
    "log 10 (last F) \<noteq> log 10 (hd F)"
  shows "fabs (fdiv (fsub (last P) (hd P)) (fsub (flog10 (Fin (last F))) (flog10 (Fin (hd F)))))
           = Fin \<bar>(b - a) / (log 10 (last F) - log 10 (hd F))\<bar>"
  using assms by (simp add: fsub_def)

lemma then_step_None:
  "then_step x f = (s', None) \<Longrightarrow> \<exists>s0. x = (s0, None) \<and> f s0 = (s', None)"
  by (cases x) (auto simp: then_step_def split: option.splits)

lemma nan_inf_check_state: "nan_inf_check s = (s', r) \<Longrightarrow> s' = s"
  by (auto simp: nan_inf_check_def split: option.splits if_splits)

lemma data_initial_ap_step:
  "initial_ap_step L s = (s', r) \<Longrightarrow>
     self_power_spectrum s' = self_power_spectrum s \<and> self_freqs s' = self_freqs s"
  by (auto simp: initial_ap_step_def Let_def split: option.splits sum.splits)

lemma peak_step_success:
  assumes "peak_step L s = (s', None)"
  shows "\<exists>P pf rm. self_power_spectrum s = Some P \<and> self_power_spectrum s' = Some P
           \<and> self_freqs s' = self_freqs s \<and> self_peak_fit s' = Some pf
           \<and> np_binop fsub P pf = Inr rm \<and> self_spectrum_peak_rm s' = Some rm"
  using assms
  by (auto simp: peak_step_def Let_def split: option.splits sum.splits if_splits)

lemma settings_fields:
  assumes "settings s' = settings s"
  shows "self_ap_guess s' = self_ap_guess s" "self_aperiodic_mode s' = self_aperiodic_mode s"
    "self_maxfev s' = self_maxfev s" "self_tol s' = self_tol s" "ap_bounds s' = ap_bounds s"
  using assms by (simp_all add: settings_def configuration_def ap_bounds_def)

lemma before_final_step:
  assumes c: "then_step (then_step (nan_inf_check s) (initial_ap_step L)) (peak_step L) = (s3, None)"
    and P: "self_power_spectrum s = Some P"
  shows "settings s3 = settings s \<and> self_power_spectrum s3 = Some P \<and> self_freqs s3 = self_freqs s
       \<and> (\<exists>rm pf. self_peak_fit s3 = Some pf \<and> np_binop fsub P pf = Inr rm
                  \<and> self_spectrum_peak_rm s3 = Some rm)
       \<and> fit_try L s = then_step (then_step (final_ap_step L s3) peak_params_step) (metrics_step L)"
proof -
  from then_step_None [OF c] obtain s2 where
    c2: "then_step (nan_inf_check s) (initial_ap_step L) = (s2, None)" and p: "peak_step L s2 = (s3, None)"
    by blast
  from then_step_None [OF c2] obtain s1 where
    n: "nan_inf_check s = (s1, None)" and i: "initial_ap_step L s1 = (s2, None)"
    by blast
  have s1: "s1 = s" using nan_inf_check_state [OF n] .
  have d2: "self_power_spectrum s2 = Some P" "self_freqs s2 = self_freqs s"
    using data_initial_ap_step [OF i] s1 P by simp_all
  from peak_step_success [OF p] d2 obtain pf rm where
    d3: "self_power_spectrum s3 = Some P" "self_freqs s3 = self_freqs s"
      "self_peak_fit s3 = Some pf" "np_binop fsub P pf = Inr rm" "self_spectrum_peak_rm s3 = Some rm"
    by auto
  have st: "settings s3 = settings s"
    using settings_peak_step [OF p] settings_initial_ap_step [OF i] s1 by simp
  have "fit_try L s = then_step (then_step (then_step (s3, None) (final_ap_step L)) peak_params_step)
      (metrics_step L)"
    unfolding fit_try_def c ..
  then have ft: "fit_try L s = then_step (then_step (final_ap_step L s3) peak_params_step) (metrics_step L)"
    by (simp add: then_step_def)
  from st d3 ft show ?thesis by blast
qed

lemma final_ap_step_default:
  assumes "self_ap_guess s = (None, k, None)"
    and "self_power_spectrum s = Some P" "P \<noteq> []"
    and "self_freqs s = Some F" "F \<noteq> []"
    and "get_ap_func (self_aperiodic_mode s) = Inr ap_func"
    and "self_spectrum_peak_rm s = Some rm" "self_peak_fit s = Some pf" "2 \<le> length rm"
  shows "case curve_fit L ap_func (Some (map Fin F)) rm
                ([rm ! 1] @ (if self_aperiodic_mode s = ''knee'' then [Fin k] else [])
                 @ [fabs (fdiv (fsub (last P) (hd P))
                               (fsub (flog10 (Fin (last F))) (flog10 (Fin (hd F)))))])
                (self_maxfev s) (ap_bounds s) (Some (self_tol s)) of
           Inl e \<Rightarrow> final_ap_step L s = (s, Some e)
         | Inr ap \<Rightarrow> self_aperiodic_params (fst (final_ap_step L s)) = map Fin ap"
    (is "case ?call of Inl e \<Rightarrow> _ | Inr ap \<Rightarrow> _")
proof -
  have "simple_ap_fit L s (Some F) rm = (case ?call of Inl e \<Rightarrow> Inl e | Inr ap \<Rightarrow> Inr ap)"
    using simple_ap_fit_default [OF assms(1-5) assms(9) assms(6), of L "Some F"] by simp
  then have eq: "simple_ap_fit L s (self_freqs s) rm =
      (case ?call of Inl e \<Rightarrow> Inl e | Inr ap \<Rightarrow> Inr ap)"
    unfolding assms(4) .
  show ?thesis
  proof (cases ?call)
    case (Inl e)
    with eq have "simple_ap_fit L s (self_freqs s) rm = Inl e" by simp
    from final_ap_step_raises [OF assms(7) assms(2) assms(8) this] Inl show ?thesis by simp
  next
    case (Inr ap)
    with eq have "simple_ap_fit L s (self_freqs s) rm = Inr ap" by simp
    from final_ap_step_params [OF assms(7) assms(2) assms(8) this] Inr show ?thesis by simp
  qed
qed

text \<open>
  Claim C10.  With no guess override, the simple aperiodic fit hands the solver the guess
  made of: index 1 of the power-spectrum argument (offset), the configured knee guess in
  knee mode, and an exponent computed from the stored attributes \<^verbatim>\<open>self.power_spectrum\<close> and
  \<^verbatim>\<open>self.freqs\<close> alone, whatever the argument is.  That exponent is never negative, and for
  finite first and last stored samples \<open>a\<close> and \<open>b\<close> over positive first and last frequencies
  with distinct logarithms it is the absolute slope \<open>|(b - a) / (log10 f_last - log10 f_first)|\<close>.
  Steps (a) to (e) of \<^verbatim>\<open>fit\<close>, when they succeed, leave the stored spectrum and frequencies
  as they were and store the peak-removed spectrum as the stored spectrum minus the peak
  fit; \<^verbatim>\<open>fit\<close> then continues with step (f) from that state.  Consequently the final simple
  fit of step (f) is the solver's answer to the guess whose offset is index 1 of the
  peak-removed spectrum and whose exponent is the slope of the stored conditioned spectrum.
\<close>

theorem simple_fit_guess_sources:
  assumes "self_ap_guess s = (None, k, None)"
    and "self_power_spectrum s = Some P" "P \<noteq> []"
    and "self_freqs s = Some F" "F \<noteq> []"
    and "get_ap_func (self_aperiodic_mode s) = Inr ap_func"
  shows "(\<forall>fs arg. 2 \<le> length arg \<longrightarrow>
            simple_ap_fit L s fs arg =
              (case curve_fit L ap_func (map_option (map Fin) fs) arg
                      ([arg ! 1] @ (if self_aperiodic_mode s = ''knee'' then [Fin k] else [])
                       @ [fabs (fdiv (fsub (last P) (hd P))
                                     (fsub (flog10 (Fin (last F))) (flog10 (Fin (hd F)))))])
                      (self_maxfev s) (ap_bounds s) (Some (self_tol s)) of
                 Inl e \<Rightarrow> Inl e
               | Inr ap \<Rightarrow> Inr ap))
       \<and> \<not> flt (fabs (fdiv (fsub (last P) (hd P))
                            (fsub (flog10 (Fin (last F))) (flog10 (Fin (hd F)))))) (Fin 0)
       \<and> (\<forall>a b. hd P = Fin a \<and> last P = Fin b \<and> 0 < hd F \<and> 0 < last F
                 \<and> log 10 (last F) \<noteq> log 10 (hd F) \<longrightarrow>
            fabs (fdiv (fsub (last P) (hd P))
                       (fsub (flog10 (Fin (last F))) (flog10 (Fin (hd F)))))
              = Fin \<bar>(b - a) / (log 10 (last F) - log 10 (hd F))\<bar>)
       \<and> (\<forall>rm pf. self_spectrum_peak_rm s = Some rm \<and> self_peak_fit s = Some pf \<and> 2 \<le> length rm \<longrightarrow>
            (case curve_fit L ap_func (Some (map Fin F)) rm
                    ([rm ! 1] @ (if self_aperiodic_mode s = ''knee'' then [Fin k] else [])
                     @ [fabs (fdiv (fsub (last P) (hd P))
                                   (fsub (flog10 (Fin (last F))) (flog10 (Fin (hd F)))))])
                    (self_maxfev s) (ap_bounds s) (Some (self_tol s)) of
               Inl e \<Rightarrow> final_ap_step L s = (s, Some e)
             | Inr ap \<Rightarrow> self_aperiodic_params (fst (final_ap_step L s)) = map Fin ap))
       \<and> (\<forall>s3. then_step (then_step (nan_inf_check s) (initial_ap_step L)) (peak_step L) = (s3, None)
             \<longrightarrow>
            self_power_spectrum s3 = Some P \<and> self_freqs s3 = Some F
            \<and> fit_try L s = then_step (then_step (final_ap_step L s3) peak_params_step) (metrics_step L)
            \<and> (\<forall>s0 fs ps fr p.
                  \<not> (self_verbose s0 > 1 \<and> (fs = None \<or> ps = None))
                  \<and> fit_attach L fs ps fr (s0\<lparr>self_prominence := p\<rparr>) = (s, None) \<and> has_data s \<longrightarrow>
                  fit L fs ps fr p s0 =
                    (case then_step (then_step (final_ap_step L s3) peak_params_step) (metrics_step L) of
                       (s2, Some FitError) \<Rightarrow>
                         if self_debug s2 then (s2, Some FitError)
                         else (reset_data_results False False True s2, None)
                     | (s2, r) \<Rightarrow> (s2, r)))
            \<and> (\<exists>rm pf. self_peak_fit s3 = Some pf \<and> np_binop fsub P pf = Inr rm
                  \<and> self_spectrum_peak_rm s3 = Some rm
                  \<and> (2 \<le> length rm \<longrightarrow>
                       (case curve_fit L ap_func (Some (map Fin F)) rm
                               ([rm ! 1] @ (if self_aperiodic_mode s = ''knee'' then [Fin k] else [])
                                @ [fabs (fdiv (fsub (last P) (hd P))
                                              (fsub (flog10 (Fin (last F))) (flog10 (Fin (hd F)))))])
                               (self_maxfev s) (ap_bounds s) (Some (self_tol s)) of
                          Inl e \<Rightarrow> final_ap_step L s3 = (s3, Some e)
                        | Inr ap \<Rightarrow> self_aperiodic_params (fst (final_ap_step L s3)) = map Fin ap))))"
    (is "?A \<and> ?B \<and> ?C \<and> ?D \<and> ?E")
proof -
  have A: ?A
    using simple_ap_fit_default [OF assms(1-5) _ assms(6)] by blast
  have B: ?B by (rule fabs_nonneg)
  have C: ?C using exp_guess_finite by blast
  have D: ?D
    using final_ap_step_default [OF assms] by blast
  have E: ?E
  proof (intro allI impI)
    fix s3
    assume c: "then_step (then_step (nan_inf_check s) (initial_ap_step L)) (peak_step L) = (s3, None)"
    from before_final_step [OF c assms(2)] obtain rm pf where
      st: "settings s3 = settings s" and d: "self_power_spectrum s3 = Some P"
        "self_freqs s3 = self_freqs s" and pk: "self_peak_fit s3 = Some pf"
        "np_binop fsub P pf = Inr rm" "self_spectrum_peak_rm s3 = Some rm"
      and ft: "fit_try L s = then_step (then_step (final_ap_step L s3) peak_params_step) (metrics_step L)"
      by blast
    note f = settings_fields [OF st]
    have g3: "self_ap_guess s3 = (None, k, None)" using f(1) assms(1) by simp
    have F3: "self_freqs s3 = Some F" using d(2) assms(4) by simp
    have m3: "get_ap_func (self_aperiodic_mode s3) = Inr ap_func" using f(2) assms(6) by simp
    have call: "2 \<le> length rm \<longrightarrow>
        (case curve_fit L ap_func (Some (map Fin F)) rm
                ([rm ! 1] @ (if self_aperiodic_mode s = ''knee'' then [Fin k] else [])
                 @ [fabs (fdiv (fsub (last P) (hd P))
                               (fsub (flog10 (Fin (last F))) (flog10 (Fin (hd F)))))])
                (self_maxfev s) (ap_bounds s) (Some (self_tol s)) of
           Inl e \<Rightarrow> final_ap_step L s3 = (s3, Some e)
         | Inr ap \<Rightarrow> self_aperiodic_params (fst (final_ap_step L s3)) = map Fin ap)"
    proof
      assume len: "2 \<le> length rm"
      from final_ap_step_default [OF g3 d(1) assms(3) F3 assms(5) m3 pk(3) pk(1) len, of L]
      show "case curve_fit L ap_func (Some (map Fin F)) rm
                ([rm ! 1] @ (if self_aperiodic_mode s = ''knee'' then [Fin k] else [])
                 @ [fabs (fdiv (fsub (last P) (hd P))
                               (fsub (flog10 (Fin (last F))) (flog10 (Fin (hd F)))))])
                (self_maxfev s) (ap_bounds s) (Some (self_tol s)) of
           Inl e \<Rightarrow> final_ap_step L s3 = (s3, Some e)
         | Inr ap \<Rightarrow> self_aperiodic_params (fst (final_ap_step L s3)) = map Fin ap"
        unfolding f .
    qed
    have lnk: "\<forall>s0 fs ps fr p.
                  \<not> (self_verbose s0 > 1 \<and> (fs = None \<or> ps = None))
                  \<and> fit_attach L fs ps fr (s0\<lparr>self_prominence := p\<rparr>) = (s, None) \<and> has_data s \<longrightarrow>
                  fit L fs ps fr p s0 =
                    (case then_step (then_step (final_ap_step L s3) peak_params_step) (metrics_step L) of
                       (s2, Some FitError) \<Rightarrow>
                         if self_debug s2 then (s2, Some FitError)
                         else (reset_data_results False False True s2, None)
                     | (s2, r) \<Rightarrow> (s2, r))"
    proof (intro allI impI)
      fix s0 fs ps fr p
      assume h: "\<not> (self_verbose s0 > 1 \<and> (fs = None \<or> ps = None))
                  \<and> fit_attach L fs ps fr (s0\<lparr>self_prominence := p\<rparr>) = (s, None) \<and> has_data s"
      then have "fit L fs ps fr p s0 =
                    (case fit_try L s of
                       (s2, Some FitError) \<Rightarrow>
                         if self_debug s2 then (s2, Some FitError)
                         else (reset_data_results False False True s2, None)
                     | (s2, r) \<Rightarrow> (s2, r))"
        by (auto simp: fit_def Let_def)
      then show "fit L fs ps fr p s0 =
                    (case then_step (then_step (final_ap_step L s3) peak_params_step) (metrics_step L) of
                       (s2, Some FitError) \<Rightarrow>
                         if self_debug s2 then (s2, Some FitError)
                         else (reset_data_results False False True s2, None)
                     | (s2, r) \<Rightarrow> (s2, r))"
        unfolding ft .
    qed
    from d(1) F3 ft pk call lnk
    show "self_power_spectrum s3 = Some P \<and> self_freqs s3 = Some F
            \<and> fit_try L s = then_step (then_step (final_ap_step L s3) peak_params_step) (metrics_step L)
            \<and> (\<forall>s0 fs ps fr p.
                  \<not> (self_verbose s0 > 1 \<and> (fs = None \<or> ps = None))
                  \<and> fit_attach L fs ps fr (s0\<lparr>self_prominence := p\<rparr>) = (s, None) \<and> has_data s \<longrightarrow>
                  fit L fs ps fr p s0 =
                    (case then_step (then_step (final_ap_step L s3) peak_params_step) (metrics_step L) of
                       (s2, Some FitError) \<Rightarrow>
                         if self_debug s2 then (s2, Some FitError)
                         else (reset_data_results False False True s2, None)
                     | (s2, r) \<Rightarrow> (s2, r)))
            \<and> (\<exists>rm pf. self_peak_fit s3 = Some pf \<and> np_binop fsub P pf = Inr rm
                  \<and> self_spectrum_peak_rm s3 = Some rm
                  \<and> (2 \<le> length rm \<longrightarrow>
                       (case curve_fit L ap_func (Some (map Fin F)) rm
                               ([rm ! 1] @ (if self_aperiodic_mode s = ''knee'' then [Fin k] else [])
                                @ [fabs (fdiv (fsub (last P) (hd P))
                                              (fsub (flog10 (Fin (last F))) (flog10 (Fin (hd F)))))])
                               (self_maxfev s) (ap_bounds s) (Some (self_tol s)) of
                          Inl e \<Rightarrow> final_ap_step L s3 = (s3, Some e)
                        | Inr ap \<Rightarrow> self_aperiodic_params (fst (final_ap_step L s3)) = map Fin ap)))"
      by blast
  qed
  from A B C D E show ?thesis by blast
qed

lemma example_fitted_fields:
  "self_ap_guess example_fitted = (None, 2497/10, None)"
  "self_power_spectrum example_fitted = Some [Fin 3, Fin 2, Fin 1]"
  "self_freqs example_fitted = Some example_freqs"
  "self_aperiodic_mode example_fitted = ''knee''"
  "self_ap_percentile_thresh example_fitted = 1/40"
  "self_spectrum_peak_rm example_fitted = Some [Fin 3, Fin 2, Fin 1]"
  "self_peak_fit example_fitted = Some [Fin 0, Fin 0, Fin 0]"
  by (simp_all add: example_fitted_def Let_def fit_defs prep_defs ap_defs peak_defs stub_lib_def
      example_instance_def init_defs example_freqs_def example_power_def)

lemma example_fitted_simple:
  "simple_ap_fit stub_lib example_fitted (Some example_freqs) [Fin 3, Fin 2, Fin 1] = Inr [0, 0, 0]"
  by (simp add: simple_ap_fit_def simple_ap_guess_def off_guess_def exp_guess_def kne_guess_def
      truthy_def py_subscript_def py_index_def example_fitted_fields get_ap_func_def stub_lib_def
      example_freqs_def)

lemma example_initial_fit:
  "gen_aperiodic (Some (map Fin example_freqs)) [0, 0, 0] None = Inr [Fin 0, Fin 0, Fin 0]"
  by (simp add: gen_aperiodic_def infer_ap_func_def get_ap_func_def expo_function_def
      example_freqs_def np_min_def fmin2_def fle_def fsub_def)

lemma example_ap_func: "get_ap_func (self_aperiodic_mode example_fitted) = Inr expo_function"
  by (simp add: example_fitted_fields get_ap_func_def)

lemma example_attached_fields:
  "self_ap_guess example_attached = (None, 2497/10, None)"
  "self_power_spectrum example_attached = Some [Fin 3, Fin 2, Fin 1]"
  "self_freqs example_attached = Some example_freqs"
  "self_aperiodic_mode example_attached = ''knee''"
  "self_maxfev example_attached = 5000"
  "self_spectrum_peak_rm example_attached = None"
  "self_prominence example_attached = 1/2"
  by (simp_all add: example_attached_def Let_def fit_attach_def prep_defs guess_echo_lib_def stub_lib_def
      example_instance_def init_defs example_freqs_def example_power_def)

lemma example_attached_outcome:
  "fit_attach guess_echo_lib (Some example_freqs) (Some example_power) None
            (example_instance\<lparr>self_prominence := 1/2\<rparr>) = (example_attached, None)"
  "has_data example_attached" "\<not> self_verbose example_instance > 1"
  by (simp_all add: example_attached_def Let_def fit_attach_def prep_defs guess_echo_lib_def stub_lib_def
      example_instance_def init_defs example_freqs_def example_power_def)

lemma example_attached_ap_func:
  "get_ap_func (self_aperiodic_mode example_attached) = Inr expo_function"
  by (simp add: example_attached_fields get_ap_func_def)

lemma example_peak_removed_outcome:
  "then_step (then_step (nan_inf_check example_attached) (initial_ap_step guess_echo_lib))
          (peak_step guess_echo_lib) = (example_peak_removed, None)"
  by (simp add: example_peak_removed_def example_attached_def Let_def fit_defs prep_defs ap_defs peak_defs
      guess_echo_lib_def stub_lib_def
      example_instance_def init_defs example_freqs_def example_power_def)

lemma example_peak_removed_fields:
  "self_peak_fit example_peak_removed = Some [Fin 1, Fin 1, Fin 1]"
  "self_spectrum_peak_rm example_peak_removed = Some [Fin 2, Fin 1, Fin 0]"
  "self_power_spectrum example_peak_removed = Some [Fin 3, Fin 2, Fin 1]"
  "self_aperiodic_params example_peak_removed = [Fin 0, Fin 0, Fin 0]"
  by (simp_all add: example_peak_removed_def example_attached_def Let_def fit_defs prep_defs ap_defs peak_defs
      guess_echo_lib_def stub_lib_def
      example_instance_def init_defs example_freqs_def example_power_def)

lemma example_echo_fit:
  "snd (fit guess_echo_lib (Some example_freqs) (Some example_power) None (1/2) example_instance) = None"
  "self_aperiodic_params (fst (fit guess_echo_lib (Some example_freqs) (Some example_power) None (1/2)
      example_instance)) = [Fin 1, Fin (2497/10), Fin 2]"
  by (simp_all add: Let_def fit_defs prep_defs ap_defs peak_defs
      guess_echo_lib_def stub_lib_def
      example_instance_def init_defs example_freqs_def example_power_def)

text \<open>
  On the reference instance with a solver that returns its initial guess: an argument with
  second sample 5 gets the guess (5, 249.7, 2), the exponent 2 being the slope of the stored
  spectrum (3, 2, 1) over the stored frequencies from 1 to 10.  In the fit of the reference
  spectrum the peak fit is 1 everywhere, the peak-removed spectrum (2, 1, 0) differs from
  the stored one, and the final aperiodic parameters are the guess (1, 249.7, 2) of step
  (f): offset from the peak-removed spectrum, exponent from the stored spectrum.
\<close>

theorem simple_fit_guess_sources_witness:
  "self_ap_guess example_attached = (None, 2497/10, None)
   \<and> self_power_spectrum example_attached = Some [Fin 3, Fin 2, Fin 1]
   \<and> self_freqs example_attached = Some example_freqs
   \<and> get_ap_func (self_aperiodic_mode example_attached) = Inr expo_function
   \<and> simple_ap_fit guess_echo_lib example_attached (Some example_freqs) [Fin 7, Fin 5, Fin 4]
       = Inr [5, 2497/10, 2]
   \<and> fabs (fdiv (fsub (Fin 1) (Fin 3)) (fsub (flog10 (Fin 10)) (flog10 (Fin 1)))) = Fin 2
   \<and> then_step (then_step (nan_inf_check example_attached) (initial_ap_step guess_echo_lib))
          (peak_step guess_echo_lib) = (example_peak_removed, None)
   \<and> self_power_spectrum example_peak_removed = Some [Fin 3, Fin 2, Fin 1]
   \<and> self_peak_fit example_peak_removed = Some [Fin 1, Fin 1, Fin 1]
   \<and> self_spectrum_peak_rm example_peak_removed = Some [Fin 2, Fin 1, Fin 0]
   \<and> self_aperiodic_params (fst (final_ap_step guess_echo_lib example_peak_removed))
       = [Fin 1, Fin (2497/10), Fin 2]
   \<and> fit guess_echo_lib (Some example_freqs) (Some example_power) None (1/2) example_instance
       = then_step (then_step (final_ap_step guess_echo_lib example_peak_removed) peak_params_step)
           (metrics_step guess_echo_lib)
   \<and> snd (fit guess_echo_lib (Some example_freqs) (Some example_power) None (1/2) example_instance)
       = None
   \<and> self_aperiodic_params
         (fst (fit guess_echo_lib (Some example_freqs) (Some example_power) None (1/2) example_instance))
       = [Fin 1, Fin (2497/10), Fin 2]"
proof -
  have p: "[Fin 3, Fin 2, Fin 1] \<noteq> []" and f: "example_freqs \<noteq> []"
    by (simp_all add: example_freqs_def)
  note t = simple_fit_guess_sources [OF example_attached_fields(1) example_attached_fields(2) p
      example_attached_fields(3) f example_attached_ap_func, of guess_echo_lib]
  have a: "simple_ap_fit guess_echo_lib example_attached (Some example_freqs) [Fin 7, Fin 5, Fin 4]
       = Inr [5, 2497/10, 2]"
    using t [THEN conjunct1, rule_format, of "[Fin 7, Fin 5, Fin 4]" "Some example_freqs"]
    by (simp add: example_attached_fields example_freqs_def guess_echo_lib_def stub_lib_def fsub_def)
  have b: "fabs (fdiv (fsub (Fin 1) (Fin 3)) (fsub (flog10 (Fin 10)) (flog10 (Fin 1)))) = Fin 2"
    using t [THEN conjunct2, THEN conjunct2, THEN conjunct1, rule_format, of 3 1]
    by (simp add: example_freqs_def fsub_def)
  note e = t [THEN conjunct2, THEN conjunct2, THEN conjunct2, THEN conjunct2, rule_format,
      OF example_peak_removed_outcome]
  from e obtain rm pf where pk: "self_peak_fit example_peak_removed = Some pf"
      "np_binop fsub [Fin 3, Fin 2, Fin 1] pf = Inr rm"
      "self_spectrum_peak_rm example_peak_removed = Some rm"
    and call: "2 \<le> length rm \<longrightarrow>
       (case curve_fit guess_echo_lib expo_function (Some (map Fin example_freqs)) rm
               ([rm ! 1] @ (if self_aperiodic_mode example_attached = ''knee'' then [Fin (2497/10)] else [])
                @ [fabs (fdiv (fsub (last [Fin 3, Fin 2, Fin 1]) (hd [Fin 3, Fin 2, Fin 1]))
                     (fsub (flog10 (Fin (last example_freqs))) (flog10 (Fin (hd example_freqs)))))])
               (self_maxfev example_attached) (ap_bounds example_attached)
               (Some (self_tol example_attached)) of
          Inl e \<Rightarrow> final_ap_step guess_echo_lib example_peak_removed = (example_peak_removed, Some e)
        | Inr ap \<Rightarrow> self_aperiodic_params (fst (final_ap_step guess_echo_lib example_peak_removed))
                     = map Fin ap)"
    by blast
  have rm: "rm = [Fin 2, Fin 1, Fin 0]"
    using pk(3) by (simp add: example_peak_removed_fields)
  have c: "self_aperiodic_params (fst (final_ap_step guess_echo_lib example_peak_removed))
       = [Fin 1, Fin (2497/10), Fin 2]"
    using call unfolding rm
    by (simp add: example_attached_fields example_freqs_def guess_echo_lib_def stub_lib_def fsub_def)
  have d: "fit guess_echo_lib (Some example_freqs) (Some example_power) None (1/2) example_instance
       = then_step (then_step (final_ap_step guess_echo_lib example_peak_removed) peak_params_step)
           (metrics_step guess_echo_lib)"
  proof -
    have "fit guess_echo_lib (Some example_freqs) (Some example_power) None (1/2) example_instance =
        (case then_step (then_step (final_ap_step guess_echo_lib example_peak_removed) peak_params_step)
                (metrics_step guess_echo_lib) of
           (s2, Some FitError) \<Rightarrow>
             if self_debug s2 then (s2, Some FitError)
             else (reset_data_results False False True s2, None)
         | (s2, r) \<Rightarrow> (s2, r))"
      using e example_attached_outcome by blast
    moreover have "then_step (then_step (final_ap_step guess_echo_lib example_peak_removed) peak_params_step)
           (metrics_step guess_echo_lib) = fit_try guess_echo_lib example_attached"
      using e by simp
    moreover have "snd (fit_try guess_echo_lib example_attached) = None"
      by (simp add: example_attached_def Let_def fit_defs prep_defs ap_defs peak_defs
          guess_echo_lib_def stub_lib_def
          example_instance_def init_defs example_freqs_def example_power_def)
    ultimately show ?thesis
      by (cases "fit_try guess_echo_lib example_attached") simp
  qed
  show ?thesis
    using a b c d example_attached_fields example_attached_ap_func example_peak_removed_outcome
      example_peak_removed_fields example_echo_fit
    by simp
qed

section \<open>Sub-sample of the robust aperiodic fit\<close>

lemma ramp_clip: "clip_flatspec ramp_power = ramp_power"
  by (simp add: clip_flatspec_def ramp_power_def)

lemma ramp_sorted: "sort_f ramp_power = ramp_power"
  by (simp add: sort_f_def ramp_power_def fle_def)

lemma ramp_len: "length ramp_power = 41" by (simp add: ramp_power_def)

lemma ramp_nonan: "\<not> list_ex isnan ramp_power" by (simp add: ramp_power_def)

lemma ramp_ne: "ramp_power \<noteq> []" by (simp add: ramp_power_def)

lemma ramp_nth: "ramp_power ! 0 = Fin 0" "ramp_power ! Suc 0 = Fin 1"
  "ramp_power ! Suc (Suc 0) = Fin 2"
  by (simp_all add: ramp_power_def)

lemma perc_code: "np_percentile ramp_power (1/40) = Inr (Fin (1/100))"
  by (simp add: np_percentile_def ramp_sorted ramp_len ramp_nonan ramp_ne Let_def ramp_nth
      np_lerp_def fsub_def)

lemma perc_claim: "np_percentile ramp_power (5/2) = Inr (Fin 1)"
  by (simp add: np_percentile_def ramp_sorted ramp_len ramp_nonan ramp_ne Let_def ramp_nth
      np_lerp_def fsub_def)

lemma mask_code: "mask_select ramp_freqs (map (\<lambda>v. fle v (Fin (1/100))) ramp_power) = [1]"
  by (simp add: mask_select_def ramp_freqs_def ramp_power_def fle_def)

lemma mask_code_p: "mask_select ramp_power (map (\<lambda>v. fle v (Fin (1/100))) ramp_power) = [Fin 0]"
  by (simp add: mask_select_def ramp_power_def fle_def)

lemma mask_claim: "mask_select ramp_freqs (map (\<lambda>v. fle v (Fin 1)) ramp_power) = [1, 2]"
  by (simp add: mask_select_def ramp_freqs_def ramp_power_def fle_def)

lemma ramp_flat: "np_binop fsub ramp_power (replicate 41 (Fin 0)) = Inr ramp_power"
proof -
  have "replicate 41 (Fin 0) = map (\<lambda>_. Fin 0) ramp_power"
    by (simp add: ramp_len map_replicate_const)
  moreover have "map2 fsub ramp_power (map (\<lambda>_. Fin 0) ramp_power) = ramp_power"
    by (simp add: ramp_power_def fsub_def)
  ultimately show ?thesis by (simp add: np_binop_def ramp_len)
qed

lemma example_thresh: "self_ap_percentile_thresh example_instance = 1/40"
  by (simp add: example_instance_def ParamSpectra_init_def str2band_def reset_data_results_def Let_def)

lemma gen_aperiodic_length:
  "gen_aperiodic (Some xs) popt None = Inr y \<Longrightarrow> length y = length xs"
  by (auto simp: gen_aperiodic_def infer_ap_func_def get_ap_func_def expo_function_def
      expo_nk_function_def Let_def split: if_splits list.splits sum.splits)

lemma mask_select_nth:
  "length xs = length m \<Longrightarrow>
     mask_select xs m = map (\<lambda>i. xs ! i) (filter (\<lambda>i. m ! i) [0..<length xs])"
proof (induction xs m rule: list_induct2)
  case Nil
  then show ?case by (simp add: mask_select_def)
next
  case (Cons x xs b m)
  have u: "[0..<Suc (length xs)] = 0 # map Suc [0..<length xs]"
    by (simp add: upt_conv_Cons map_Suc_upt del: upt_Suc)
  have "mask_select (x # xs) (b # m) = (if b then [x] else []) @ mask_select xs m"
    by (simp add: mask_select_def)
  also have "\<dots> = (if b then [x] else []) @ map (\<lambda>i. xs ! i) (filter (\<lambda>i. m ! i) [0..<length xs])"
    using Cons.IH by simp
  also have "\<dots> = map (\<lambda>i. (x # xs) ! i) (filter (\<lambda>i. (b # m) ! i) [0..<length (x # xs)])"
    unfolding length_Cons u by (simp add: filter_map o_def)
  finally show ?case .
qed

lemma clip_nonneg: "v \<in> set (clip_flatspec xs) \<Longrightarrow> \<not> flt v (Fin 0)"
  by (auto simp: clip_flatspec_def)

lemma np_percentile_total:
  "0 \<le> q \<Longrightarrow> q \<le> 100 \<Longrightarrow> \<exists>thresh. np_percentile a q = Inr thresh"
  by (simp add: np_percentile_def Let_def)

lemma clip_nth:
  "i < length xs \<Longrightarrow> clip_flatspec xs ! i = (if flt (xs ! i) (Fin 0) then Fin 0 else xs ! i)"
  by (simp add: clip_flatspec_def)

text \<open>
  Claim C4, as amended.  The percentile threshold 0.025 is handed to \<^verbatim>\<open>np.percentile\<close>,
  which reads it in percent.  After the initial simple fit, the residual has its negative
  values set to zero, and the second solve runs on exactly the points whose clipped residual
  is at or below the 0.025th percentile of the clipped residuals, with the parameters of
  the first fit as initial guess; a \<^verbatim>\<open>RuntimeError\<close> or \<^verbatim>\<open>TypeError\<close> of that solve
  becomes a \<^verbatim>\<open>FitError\<close>.
\<close>

theorem robust_refit_subsample:
  assumes "self_ap_percentile_thresh s = 25/1000"
    and "simple_ap_fit L s (Some fs) ps = Inr popt"
    and "gen_aperiodic (Some (map Fin fs)) popt None = Inr initial_fit"
    and "length ps = length fs"
    and "get_ap_func (self_aperiodic_mode s) = Inr ap_func"
  shows "\<exists>thresh.
           np_percentile (clip_flatspec (map2 fsub ps initial_fit)) (25/1000) = Inr thresh
         \<and> (\<forall>i < length ps.
                clip_flatspec (map2 fsub ps initial_fit) ! i =
                  (if flt (fsub (ps ! i) (initial_fit ! i)) (Fin 0) then Fin 0
                   else fsub (ps ! i) (initial_fit ! i)))
         \<and> robust_ap_fit L s (Some fs) ps =
             (let keep = filter (\<lambda>i. fle (clip_flatspec (map2 fsub ps initial_fit) ! i) thresh)
                           [0..<length ps]
              in case curve_fit L ap_func (Some (map (\<lambda>i. Fin (fs ! i)) keep))
                        (map (\<lambda>i. ps ! i) keep) (map Fin popt)
                        (self_maxfev s) (ap_bounds s) (Some (self_tol s)) of
                   Inl e \<Rightarrow> Inl (if e = RuntimeError \<or> e = TypeError then FitError else e)
                 | Inr aperiodic_params \<Rightarrow> Inr aperiodic_params)"
proof -
  let ?flat = "clip_flatspec (map2 fsub ps initial_fit)"
  have len_fit: "length initial_fit = length ps"
    using gen_aperiodic_length [OF assms(3)] assms(4) by simp
  then have len_flat: "length ?flat = length ps"
    by (simp add: clip_flatspec_def)
  obtain thresh where th: "np_percentile ?flat (25/1000) = Inr thresh"
    using np_percentile_total [of "25/1000" ?flat] by auto
  let ?mask = "map (\<lambda>v. fle v thresh) ?flat"
  let ?keep = "filter (\<lambda>i. fle (?flat ! i) thresh) [0..<length ps]"
  have keep: "filter (\<lambda>i. ?mask ! i) [0..<length ps] = ?keep"
    by (rule filter_cong) (simp_all add: len_flat)
  have sel_f: "mask_select fs ?mask = map (\<lambda>i. fs ! i) ?keep"
    using mask_select_nth [of fs ?mask] keep len_flat assms(4) by simp
  have sel_p: "mask_select ps ?mask = map (\<lambda>i. ps ! i) ?keep"
    using mask_select_nth [of ps ?mask] keep len_flat by simp
  have sel: "robust_select s (Some fs) ps initial_fit =
      Inr (map (\<lambda>i. fs ! i) ?keep, map (\<lambda>i. ps ! i) ?keep)"
    unfolding robust_select_def assms(1)
    using th len_fit len_flat assms(4) sel_f sel_p
    by (simp add: np_binop_def Let_def)
  let ?call = "curve_fit L ap_func (Some (map (\<lambda>i. Fin (fs ! i)) ?keep))
                 (map (\<lambda>i. ps ! i) ?keep) (map Fin popt)
                 (self_maxfev s) (ap_bounds s) (Some (self_tol s))"
  have u: "robust_ap_fit L s (Some fs) ps =
      (case ?call of
         Inl RuntimeError \<Rightarrow> Inl FitError
       | Inl TypeError \<Rightarrow> Inl FitError
       | Inl e \<Rightarrow> Inl e
       | Inr aperiodic_params \<Rightarrow> Inr aperiodic_params)"
    unfolding robust_ap_fit_def using assms(2,3,5) sel by (simp add: o_def)
  have r: "robust_ap_fit L s (Some fs) ps =
      (case ?call of
         Inl e \<Rightarrow> Inl (if e = RuntimeError \<or> e = TypeError then FitError else e)
       | Inr aperiodic_params \<Rightarrow> Inr aperiodic_params)"
  proof (cases ?call)
    case (Inl e)
    then show ?thesis unfolding u by (cases e) simp_all
  next
    case (Inr p)
    then show ?thesis unfolding u by simp
  qed
  have c: "\<forall>i < length ps. ?flat ! i =
             (if flt (fsub (ps ! i) (initial_fit ! i)) (Fin 0) then Fin 0
              else fsub (ps ! i) (initial_fit ! i))"
    using len_fit by (simp add: clip_nth)
  show ?thesis
    using th c r by (intro exI [of _ thresh]) (simp add: Let_def)
qed

text \<open>The robust fit of the reference spectrum with the reference solver.\<close>

theorem robust_refit_subsample_witness:
  "self_ap_percentile_thresh example_fitted = 25/1000
   \<and> simple_ap_fit stub_lib example_fitted (Some example_freqs) [Fin 3, Fin 2, Fin 1]
       = Inr [0, 0, 0]
   \<and> gen_aperiodic (Some (map Fin example_freqs)) [0, 0, 0] None = Inr [Fin 0, Fin 0, Fin 0]
   \<and> length [Fin 3, Fin 2, Fin 1] = length example_freqs
   \<and> get_ap_func (self_aperiodic_mode example_fitted) = Inr expo_function
   \<and> robust_ap_fit stub_lib example_fitted (Some example_freqs) [Fin 3, Fin 2, Fin 1]
       = Inr [0, 0, 0]"
proof -
  have h1: "self_ap_percentile_thresh example_fitted = 25/1000"
    by (simp add: example_fitted_fields)
  have h4: "length [Fin 3, Fin 2, Fin 1] = length example_freqs"
    by (simp add: example_freqs_def)
  from robust_refit_subsample [OF h1 example_fitted_simple example_initial_fit h4 example_ap_func]
  have "robust_ap_fit stub_lib example_fitted (Some example_freqs) [Fin 3, Fin 2, Fin 1]
       = Inr [0, 0, 0]"
    by (auto simp: Let_def stub_lib_def)
  then show ?thesis
    using h1 h4 example_fitted_simple example_initial_fit example_ap_func by simp
qed

text \<open>
  Claim C4 as stated fails: on a residual rising from 0 to 40 over 41 points the 2.5th
  percentile is 1, so two points lie at or below it, but the fit keeps the single point at
  or below the 0.025th percentile (0.01).
\<close>

theorem robust_subsample_not_2_5th_percentile:
  "self_ap_percentile_thresh example_instance = 25/1000
   \<and> robust_select example_instance (Some ramp_freqs) ramp_power (replicate 41 (Fin 0))
       = Inr ([1], [Fin 0])
   \<and> np_percentile (clip_flatspec ramp_power) (5/2) = Inr (Fin 1)
   \<and> mask_select ramp_freqs (map (\<lambda>v. fle v (Fin 1)) (clip_flatspec ramp_power)) = [1, 2]"
proof -
  have "length ramp_freqs = 41" by (simp add: ramp_freqs_def)
  then have "robust_select example_instance (Some ramp_freqs) ramp_power (replicate 41 (Fin 0))
       = Inr ([1], [Fin 0])"
    unfolding robust_select_def example_thresh
    by (simp add: ramp_flat ramp_clip perc_code Let_def ramp_len mask_code mask_code_p)
  then show ?thesis
    unfolding example_thresh by (simp add: ramp_clip perc_claim mask_claim)
qed

section \<open>Bounds of the joint Gaussian fit\<close>

lemma ln_2_gt_half: "1 / 2 < ln (2::real)"
proof -
  have e4: "exp (1::real) < 4" using exp_le by (simp add: order_le_less_trans)
  have "exp (1::real) = exp (1/2) * exp (1/2)" by (simp flip: exp_add)
  with e4 have lt: "exp (1/2::real) * exp (1/2) < 2 * 2" by simp
  have "exp (1/2 :: real) < 2"
  proof (rule ccontr)
    assume "\<not> exp (1/2 :: real) < 2"
    then have "2 \<le> exp (1/2::real)" by simp
    then have "2 * 2 \<le> exp (1/2::real) * exp (1/2)" by (intro mult_mono) simp_all
    with lt show False by simp
  qed
  then have "exp (1/2 :: real) < exp (ln 2)" by simp
  then show ?thesis by (simp only: exp_less_cancel_iff)
qed

lemma fwhm_factor_gt_2: "2 < 2 * sqrt (2 * ln (2::real))"
proof -
  have "1 < 2 * ln (2::real)" using ln_2_gt_half by simp
  then have "sqrt 1 < sqrt (2 * ln (2::real))" by (simp only: real_sqrt_less_iff)
  then show ?thesis by simp
qed

lemma gauss_std_lt_width:
  assumes "l < (h::real)"
  shows "(h - l) / (2 * sqrt (2 * ln 2)) < h - l"
proof -
  have p: "0 < h - l" using assms by simp
  have "1 < 2 * sqrt (2 * ln (2::real))" using fwhm_factor_gt_2 by linarith
  then have "(h - l) / (2 * sqrt (2 * ln 2)) < (h - l) / 1"
    using p by (intro divide_strict_left_mono) simp_all
  then show ?thesis by simp
qed

lemma compute_gauss_std_Fin:
  "compute_gauss_std (fsub (Fin h) (Fin l)) = Fin ((h - l) / (2 * sqrt (2 * ln 2)))"
proof -
  have "2 * sqrt (2 * ln (2::real)) \<noteq> 0" using fwhm_factor_gt_2 by linarith
  then show ?thesis by (simp add: compute_gauss_std_def fsub_def)
qed

lemma gauss_guess_bounds_bounds:
  "gauss_guess_bounds fs ps bnds = Inr (g, bs) \<Longrightarrow> bs = concat (map band_bounds bnds)"
proof (induction bnds arbitrary: g bs)
  case Nil
  then show ?case by simp
next
  case (Cons bnd rest)
  then show ?case by (auto split: sum.splits prod.splits)
qed

lemma band_bounds_split:
  "map fst (concat (map band_bounds bnds)) = concat (map (\<lambda>(l, h). [NegInf, l, Fin 0]) bnds)"
  "map snd (concat (map band_bounds bnds))
     = concat (map (\<lambda>(l, h). [PosInf, h, compute_gauss_std (fsub h l)]) bnds)"
  by (induction bnds) (auto simp: band_bounds_def)

text \<open>
  Claim C3, as amended.  The joint Gaussian fit hands the solver, for every band of the
  retained set taken in the domain of the fit (natural logarithm of both bounds when
  \<^verbatim>\<open>log_freqs\<close> is set), the bounds: amplitude unbounded, mean between the band's lower
  and upper bound, standard deviation between 0 and \<^verbatim>\<open>compute_gauss_std\<close> of the band
  width, that is the width divided by \<open>2 * sqrt (2 * ln 2)\<close>, which for a band with
  \<open>low < high\<close> is strictly below the band width.
\<close>

theorem gaussian_fit_bounds_per_band:
  "constrained_gaussian_fit L fs ps bnds lg =
     (case gauss_guess_bounds (fit_domain_freqs lg fs) ps (fit_domain_bands lg bnds) of
        Inl e \<Rightarrow> Inl e
      | Inr (initial_guess, bs) \<Rightarrow>
          curve_fit L (sum_of_gaussians L (fit_domain_bands lg bnds))
            (Some (fit_domain_freqs lg fs)) ps initial_guess 10000
            (concat (map (\<lambda>(l, h). [NegInf, l, Fin 0]) (fit_domain_bands lg bnds)),
             concat (map (\<lambda>(l, h). [PosInf, h, compute_gauss_std (fsub h l)])
                       (fit_domain_bands lg bnds)))
            None)
   \<and> fit_domain_bands lg bnds = (if lg then map (\<lambda>(l, h). (fln l, fln h)) bnds else bnds)
   \<and> (\<forall>l h. l < h \<longrightarrow>
          compute_gauss_std (fsub (Fin h) (Fin l)) = Fin ((h - l) / (2 * sqrt (2 * ln 2)))
          \<and> (h - l) / (2 * sqrt (2 * ln 2)) < h - l)"
proof -
  let ?g = "gauss_guess_bounds (fit_domain_freqs lg fs) ps (fit_domain_bands lg bnds)"
  have 1: "constrained_gaussian_fit L fs ps bnds lg =
     (case ?g of
        Inl e \<Rightarrow> Inl e
      | Inr (initial_guess, bs) \<Rightarrow>
          curve_fit L (sum_of_gaussians L (fit_domain_bands lg bnds))
            (Some (fit_domain_freqs lg fs)) ps initial_guess 10000
            (concat (map (\<lambda>(l, h). [NegInf, l, Fin 0]) (fit_domain_bands lg bnds)),
             concat (map (\<lambda>(l, h). [PosInf, h, compute_gauss_std (fsub h l)])
                       (fit_domain_bands lg bnds)))
            None)"
  proof (cases ?g)
    case (Inl e)
    then show ?thesis by (simp add: constrained_gaussian_fit_def Let_def)
  next
    case (Inr r)
    obtain g bs where r: "r = (g, bs)" by (cases r)
    have "bs = concat (map band_bounds (fit_domain_bands lg bnds))"
      using gauss_guess_bounds_bounds Inr r by blast
    then show ?thesis
      using Inr r by (simp add: constrained_gaussian_fit_def Let_def band_bounds_split)
  qed
  have 2: "fit_domain_bands lg bnds = (if lg then map (\<lambda>(l, h). (fln l, fln h)) bnds else bnds)"
    by (simp add: fit_domain_bands_def)
  have 3: "\<forall>l h. l < h \<longrightarrow>
          compute_gauss_std (fsub (Fin h) (Fin l)) = Fin ((h - l) / (2 * sqrt (2 * ln 2)))
          \<and> (h - l) / (2 * sqrt (2 * ln 2)) < h - l"
    using compute_gauss_std_Fin gauss_std_lt_width by blast
  from 1 2 3 show ?thesis by blast
qed

text \<open>The band from 0 to 4.\<close>

theorem gaussian_fit_bounds_per_band_witness:
  "(0::real) < 4
   \<and> compute_gauss_std (fsub (Fin 4) (Fin 0)) = Fin ((4 - 0) / (2 * sqrt (2 * ln 2)))
   \<and> (4 - 0) / (2 * sqrt (2 * ln 2)) < (4 - 0 :: real)"
proof -
  have h: "(0::real) < 4" by simp
  from gaussian_fit_bounds_per_band [THEN conjunct2, THEN conjunct2, rule_format, OF h]
  show ?thesis using h by blast
qed

text \<open>
  Claim C3 as stated fails: for the band (0, 4) the upper bound of the standard deviation
  is \<open>4 / (2 * sqrt (2 * ln 2))\<close>, not the band width 4.
\<close>

theorem std_bound_below_band_width:
  "\<exists>g bs. gauss_guess_bounds [Fin 1, Fin 2] [Fin 1, Fin 1] [(Fin 0, Fin 4)] = Inr (g, bs)
          \<and> bs ! 2 = (Fin 0, Fin (4 / (2 * sqrt (2 * ln 2))))
          \<and> snd (bs ! 2) \<noteq> fsub (Fin 4) (Fin 0)"
proof -
  have n: "4 / (2 * sqrt (2 * ln 2)) \<noteq> (4::real)"
    using gauss_std_lt_width [of 0 4] by simp
  have c: "compute_gauss_std (fsub (Fin 4) (Fin 0)) = Fin (4 / (2 * sqrt (2 * ln 2)))"
    using compute_gauss_std_Fin [of 4 0] by simp
  have "gauss_guess_bounds [Fin 1, Fin 2] [Fin 1, Fin 1] [(Fin 0, Fin 4)]
      = Inr ([Fin 1, np_mean [Fin 1, Fin 2], compute_gauss_std (fdiv (fsub (Fin 4) (Fin 0)) (Fin 2))],
             [(NegInf, PosInf), (Fin 0, Fin 4), (Fin 0, Fin (4 / (2 * sqrt (2 * ln 2))))])"
    by (simp add: band_guess_def band_bounds_def mask_select_def fle_def np_max_def fmax2_def c)
  then show ?thesis using n by (simp add: fsub_def)
qed

section \<open>The substitution guard of the knee model\<close>

lemma flt_trans: "flt a b \<Longrightarrow> flt b c \<Longrightarrow> flt a c"
  by (cases a; cases b; cases c) auto

lemma flt_irrefl [simp]: "\<not> flt a a"
  by (cases a) auto

lemma flt_asym: "flt a b \<Longrightarrow> \<not> flt b a"
  by (cases a; cases b) auto

lemma flt_neg_trans: "\<not> isnan a \<Longrightarrow> \<not> flt v a \<Longrightarrow> \<not> flt a y \<Longrightarrow> \<not> flt v y"
  by (cases a; cases v; cases y) auto

lemma fold_fmin2_mem: "fold fmin2 ys a \<in> set (a # ys)"
  by (induction ys arbitrary: a) (auto simp: fmin2_def)

lemma fold_fmin2_least:
  assumes "\<not> isnan a" and "\<forall>y \<in> set ys. \<not> isnan y" and "\<not> flt v a \<or> v \<in> set ys"
  shows "\<not> flt v (fold fmin2 ys a)"
  using assms
proof (induction ys arbitrary: a)
  case Nil
  then show ?case by simp
next
  case (Cons y ys)
  have n: "\<not> isnan (fmin2 y a)" using Cons.prems(1,2) by (simp add: fmin2_def)
  have "\<not> flt v (fmin2 y a) \<or> v \<in> set ys"
  proof (cases "v \<in> set ys")
    case True
    then show ?thesis by simp
  next
    case False
    then consider "v = y" | "\<not> flt v a" using Cons.prems(3) by auto
    then have "\<not> flt v (fmin2 y a)"
    proof cases
      case 1
      then show ?thesis using flt_asym [of a y] by (simp add: fmin2_def)
    next
      case 2
      then show ?thesis
        using flt_neg_trans [OF Cons.prems(1), of v y] by (auto simp: fmin2_def)
    qed
    then show ?thesis by simp
  qed
  then show ?case using Cons.IH [OF n] Cons.prems(2) by simp
qed

lemma np_min_positive:
  assumes "pos = filter (\<lambda>v. flt (Fin 0) v) inner" and "pos \<noteq> []"
  shows "\<exists>m. np_min pos = Inr m \<and> m \<in> set inner \<and> flt (Fin 0) m
             \<and> (\<forall>v \<in> set inner. flt (Fin 0) v \<longrightarrow> \<not> flt v m)"
proof -
  let ?m = "fold fmin2 (tl pos) (hd pos)"
  have nonan: "\<not> list_ex isnan pos"
    using assms(1) by (auto simp: list_ex_iff elim: isnan.elims)
  have m: "np_min pos = Inr ?m" using assms(2) nonan by (simp add: np_min_def)
  have "?m \<in> set (hd pos # tl pos)" by (rule fold_fmin2_mem)
  then have mem: "?m \<in> set pos" using assms(2) by simp
  then have a: "?m \<in> set inner" "flt (Fin 0) ?m" using assms(1) by auto
  have "\<forall>v \<in> set pos. \<not> flt v ?m"
  proof
    fix v assume "v \<in> set pos"
    then have "v = hd pos \<or> v \<in> set (tl pos)" using assms(2) by (cases pos) auto
    then have d: "\<not> flt v (hd pos) \<or> v \<in> set (tl pos)" by auto
    have n1: "\<not> isnan (hd pos)" using nonan assms(2) by (cases pos) (auto simp: list_ex_iff)
    have n2: "\<forall>y \<in> set (tl pos). \<not> isnan y"
      using nonan assms(2) by (cases pos) (auto simp: list_ex_iff)
    show "\<not> flt v ?m" by (rule fold_fmin2_least [OF n1 n2 d])
  qed
  then have "\<forall>v \<in> set inner. flt (Fin 0) v \<longrightarrow> \<not> flt v ?m" using assms(1) by auto
  with m a show ?thesis by blast
qed

text \<open>
  Claim C9, as amended.  Whenever at least one value of \<open>knee + frequency ^ exponent\<close> on
  the grid is positive and finite, the knee-mode forward function returns an array of the
  grid's length in which every non-positive value of \<open>knee + frequency ^ exponent\<close> has
  been replaced, before the logarithm, by the smallest positive value \<open>m\<close> present on the
  grid; \<open>m\<close> is finite, and the output is finite at every replaced grid point and at every
  grid point where \<open>knee + frequency ^ exponent\<close> is finite.
\<close>

theorem expo_function_guard:
  assumes "\<exists>x \<in> set xs. \<exists>r. 0 < r \<and> fadd (Fin knee) (fpow x ex) = Fin r"
  shows "\<exists>ys m. expo_function (Some xs) [offset, knee, ex] = Inr ys
          \<and> length ys = length xs
          \<and> m \<in> set (map (\<lambda>x. fadd (Fin knee) (fpow x ex)) xs) \<and> flt (Fin 0) m \<and> isfinite m
          \<and> (\<forall>x \<in> set xs. flt (Fin 0) (fadd (Fin knee) (fpow x ex))
                 \<longrightarrow> \<not> flt (fadd (Fin knee) (fpow x ex)) m)
          \<and> (\<forall>i < length xs.
                 ys ! i = fsub (Fin offset)
                            (flog10 (if fle (fadd (Fin knee) (fpow (xs ! i) ex)) (Fin 0) then m
                                     else fadd (Fin knee) (fpow (xs ! i) ex)))
                 \<and> (fle (fadd (Fin knee) (fpow (xs ! i) ex)) (Fin 0) \<longrightarrow> isfinite (ys ! i))
                 \<and> (isfinite (fadd (Fin knee) (fpow (xs ! i) ex)) \<longrightarrow> isfinite (ys ! i)))"
proof -
  let ?inner = "map (\<lambda>x. fadd (Fin knee) (fpow x ex)) xs"
  let ?pos = "filter (\<lambda>v. flt (Fin 0) v) ?inner"
  obtain x r where x: "x \<in> set xs" "0 < r" "fadd (Fin knee) (fpow x ex) = Fin r"
    using assms by blast
  then have rin: "Fin r \<in> set ?inner" by force
  then have inpos: "Fin r \<in> set ?pos" using x(2) by simp
  have ne: "?pos \<noteq> []"
  proof
    assume "?pos = []"
    then have "set ?pos = {}" by (simp only: set_empty)
    with inpos show False by (simp only: empty_iff)
  qed
  from np_min_positive [OF refl ne]
  obtain m where m: "np_min ?pos = Inr m" "m \<in> set ?inner" "flt (Fin 0) m"
    "\<forall>v \<in> set ?inner. flt (Fin 0) v \<longrightarrow> \<not> flt v m"
    by blast
  have "flt (Fin 0) (Fin r)" using x(2) by simp
  with m(4) rin have "\<not> flt (Fin r) m" by blast
  with m(3) obtain r' where r': "m = Fin r'" "0 < r'" by (cases m) auto
  let ?ys = "map (\<lambda>v. fsub (Fin offset) (flog10 (if fle v (Fin 0) then m else v))) ?inner"
  have e: "expo_function (Some xs) [offset, knee, ex] = Inr ?ys"
    using m(1) by (simp add: expo_function_def Let_def)
  have fin_m: "isfinite (fsub (Fin offset) (flog10 m))"
    using r' by (simp add: fsub_def)
  have pt: "\<forall>i < length xs.
                 ?ys ! i = fsub (Fin offset)
                            (flog10 (if fle (fadd (Fin knee) (fpow (xs ! i) ex)) (Fin 0) then m
                                     else fadd (Fin knee) (fpow (xs ! i) ex)))
                 \<and> (fle (fadd (Fin knee) (fpow (xs ! i) ex)) (Fin 0) \<longrightarrow> isfinite (?ys ! i))
                 \<and> (isfinite (fadd (Fin knee) (fpow (xs ! i) ex)) \<longrightarrow> isfinite (?ys ! i))"
  proof (intro allI impI)
    fix i assume i: "i < length xs"
    let ?v = "fadd (Fin knee) (fpow (xs ! i) ex)"
    have y: "?ys ! i = fsub (Fin offset) (flog10 (if fle ?v (Fin 0) then m else ?v))"
      using i by simp
    have a: "fle ?v (Fin 0) \<longrightarrow> isfinite (?ys ! i)"
      using y fin_m by simp
    have b: "isfinite ?v \<longrightarrow> isfinite (?ys ! i)"
    proof
      assume "isfinite ?v"
      then obtain q where q: "?v = Fin q" by (cases ?v) auto
      show "isfinite (?ys ! i)"
      proof (cases "q \<le> 0")
        case True
        then have "fle ?v (Fin 0)" using q by (auto simp: fle_def)
        with a show ?thesis by simp
      next
        case False
        then have "\<not> fle ?v (Fin 0)" using q by (auto simp: fle_def)
        then have "?ys ! i = fsub (Fin offset) (flog10 (Fin q))" using y q by simp
        then show ?thesis using False by (simp add: fsub_def)
      qed
    qed
    from y a b show "?ys ! i = fsub (Fin offset) (flog10 (if fle ?v (Fin 0) then m else ?v))
        \<and> (fle ?v (Fin 0) \<longrightarrow> isfinite (?ys ! i)) \<and> (isfinite ?v \<longrightarrow> isfinite (?ys ! i))"
      by blast
  qed
  have least: "\<forall>x \<in> set xs. flt (Fin 0) (fadd (Fin knee) (fpow x ex))
                 \<longrightarrow> \<not> flt (fadd (Fin knee) (fpow x ex)) m"
    using m(4) by simp
  have fm: "isfinite m" using r' by simp
  have len: "length ?ys = length xs" by simp
  show ?thesis
    using e len m(2) m(3) fm least pt by blast
qed

text \<open>
  The grid (1, 2) with knee \<open>-1\<close> and exponent 1: the first grid point has the
  non-positive log argument 0 and a finite output.
\<close>

theorem expo_function_guard_witness:
  "(\<exists>x \<in> set [Fin 1, Fin 2]. \<exists>r. 0 < r \<and> fadd (Fin (- 1)) (fpow x 1) = Fin r)
   \<and> fle (fadd (Fin (- 1)) (fpow ([Fin 1, Fin 2] ! 0) 1)) (Fin 0)
   \<and> (\<exists>ys. expo_function (Some [Fin 1, Fin 2]) [0, - 1, 1] = Inr ys \<and> isfinite (ys ! 0)
            \<and> isfinite (ys ! 1))"
proof -
  have h: "\<exists>x \<in> set [Fin 1, Fin 2]. \<exists>r. 0 < r \<and> fadd (Fin (- 1)) (fpow x 1) = Fin r"
    by simp
  have z: "fle (fadd (Fin (- 1)) (fpow ([Fin 1, Fin 2] ! 0) 1)) (Fin 0)"
    by (simp add: fle_def)
  have f: "isfinite (fadd (Fin (- 1)) (fpow ([Fin 1, Fin 2] ! 1) 1))"
    by simp
  from expo_function_guard [OF h, of 0]
  obtain ys m where e: "expo_function (Some [Fin 1, Fin 2]) [0, - 1, 1] = Inr ys"
    and p: "\<forall>i < length [Fin 1, Fin 2 :: npfloat].
              ys ! i = fsub (Fin 0)
                         (flog10 (if fle (fadd (Fin (- 1)) (fpow ([Fin 1, Fin 2] ! i) 1)) (Fin 0)
                                  then m else fadd (Fin (- 1)) (fpow ([Fin 1, Fin 2] ! i) 1)))
              \<and> (fle (fadd (Fin (- 1)) (fpow ([Fin 1, Fin 2] ! i) 1)) (Fin 0) \<longrightarrow> isfinite (ys ! i))
              \<and> (isfinite (fadd (Fin (- 1)) (fpow ([Fin 1, Fin 2] ! i) 1)) \<longrightarrow> isfinite (ys ! i))"
    by blast
  have l0: "0 < length [Fin 1, Fin 2 :: npfloat]" and l1: "1 < length [Fin 1, Fin 2 :: npfloat]"
    by simp_all
  have "isfinite (ys ! 0)" using p [rule_format, OF l0] z by blast
  moreover have "isfinite (ys ! 1)" using p [rule_format, OF l1] f by blast
  ultimately show ?thesis using h z e by blast
qed

text \<open>
  Claim C9 as stated fails: on the grid (1) with knee \<open>-2\<close> and exponent 1 no value of
  \<open>knee + frequency ^ exponent\<close> is positive, the minimum over the positive values is
  taken of an empty array and the function raises \<^verbatim>\<open>ValueError\<close>.
\<close>

theorem expo_function_no_positive_value:
  "expo_function (Some [Fin 1]) [0, - 2, 1] = Inl ValueError"
  by (simp add: expo_function_def np_min_def)

end
